theory Spec2Isabelle
  imports Main "HOL-Library.Sublist"
begin

section \<open>Go strings\<close>

text \<open>
  A Go string is a sequence of bytes and \<^verbatim>\<open>len\<close> counts bytes, so a Go string is a
  \<^typ>\<open>string\<close> here and \<^verbatim>\<open>len(s)\<close> is \<^term>\<open>length s\<close>. The functions of package
  \<^verbatim>\<open>strings\<close> that \<^verbatim>\<open>ui/window.go\<close> calls are written out below.
\<close>

definition HasPrefix :: "string \<Rightarrow> string \<Rightarrow> bool" where
  "HasPrefix s p = prefix p s"

definition TrimPrefix :: "string \<Rightarrow> string \<Rightarrow> string" where
  "TrimPrefix s p = (if HasPrefix s p then drop (length p) s else s)"

text \<open>\<^verbatim>\<open>strings.IndexRune(s, c)\<close> for an ASCII \<open>c\<close>: the index of its first occurrence, or -1.\<close>

definition IndexRune :: "string \<Rightarrow> char \<Rightarrow> int" where
  "IndexRune s c = (if c \<in> set s then int (length (takeWhile (\<lambda>x. x \<noteq> c) s)) else - 1)"

text \<open>
  The slice expression \<^verbatim>\<open>s[lo:hi]\<close>. Go panics unless \<open>0 \<le> lo \<le> hi \<le> len(s)\<close>; the only
  slices taken in the modelled code are taken of a match of \<open>emojiRegex\<close>, around its first
  colon, where the bounds hold.
\<close>

definition slice :: "string \<Rightarrow> int \<Rightarrow> int \<Rightarrow> string" where
  "slice s lo hi = take (nat (hi - lo)) (drop (nat lo) s)"

text \<open>
  \<^verbatim>\<open>strings.ReplaceAll(s, old, new)\<close>: the non-overlapping occurrences of \<open>old\<close>, leftmost
  first, are replaced. Every call site passes a non-empty \<open>old\<close> (a literal followed by a
  name); for an empty \<open>old\<close>, where Go would insert \<open>new\<close> around every rune, nothing is
  replaced here.
\<close>

function ReplaceAll :: "string \<Rightarrow> string \<Rightarrow> string \<Rightarrow> string" where
  "ReplaceAll [] old new = []"
| "ReplaceAll (c # cs) old new =
     (if old \<noteq> [] \<and> prefix old (c # cs)
      then new @ ReplaceAll (drop (length old) (c # cs)) old new
      else c # ReplaceAll cs old new)"
  by pat_completeness auto
termination
  by (relation "measure (\<lambda>(s, old, new). length s)") (auto simp: neq_Nil_conv)

text \<open>
  \<^verbatim>\<open>strings.TrimSpace\<close> removes leading and trailing white space as Unicode defines it
  (\<^verbatim>\<open>unicode.IsSpace\<close>). On the bytes of the string that is: the six ASCII space characters
  and the UTF-8 encodings of U+0085, U+00A0, U+1680, U+2000 to U+200A, U+2028, U+2029,
  U+202F, U+205F and U+3000. A byte sequence that does not decode to one of these runes
  (an invalid byte decodes to U+FFFD) stops the trimming.
\<close>

definition whiteSpace :: "string list" where
  "whiteSpace =
    [[CHR 0x09], [CHR 0x0A], [CHR 0x0B], [CHR 0x0C], [CHR 0x0D], [CHR 0x20],
     [CHR 0xC2, CHR 0x85], [CHR 0xC2, CHR 0xA0],
     [CHR 0xE1, CHR 0x9A, CHR 0x80],
     [CHR 0xE2, CHR 0x80, CHR 0x80], [CHR 0xE2, CHR 0x80, CHR 0x81],
     [CHR 0xE2, CHR 0x80, CHR 0x82], [CHR 0xE2, CHR 0x80, CHR 0x83],
     [CHR 0xE2, CHR 0x80, CHR 0x84], [CHR 0xE2, CHR 0x80, CHR 0x85],
     [CHR 0xE2, CHR 0x80, CHR 0x86], [CHR 0xE2, CHR 0x80, CHR 0x87],
     [CHR 0xE2, CHR 0x80, CHR 0x88], [CHR 0xE2, CHR 0x80, CHR 0x89],
     [CHR 0xE2, CHR 0x80, CHR 0x8A],
     [CHR 0xE2, CHR 0x80, CHR 0xA8], [CHR 0xE2, CHR 0x80, CHR 0xA9],
     [CHR 0xE2, CHR 0x80, CHR 0xAF], [CHR 0xE2, CHR 0x81, CHR 0x9F],
     [CHR 0xE3, CHR 0x80, CHR 0x80]]"

lemma whiteSpace_nonempty: "sp \<in> set whiteSpace \<Longrightarrow> sp \<noteq> []"
  by (auto simp: whiteSpace_def)

function TrimLeftSpace :: "string \<Rightarrow> string" where
  "TrimLeftSpace s =
     (case find (\<lambda>sp. prefix sp s) whiteSpace of
        None \<Rightarrow> s
      | Some sp \<Rightarrow> TrimLeftSpace (drop (length sp) s))"
  by pat_completeness auto
termination
proof (relation "measure length")
  fix s sp
  assume "find (\<lambda>sp. prefix sp s) whiteSpace = Some sp"
  then have "sp \<in> set whiteSpace" and "prefix sp s"
    by (auto simp: find_Some_iff)
  then have "sp \<noteq> []" and "length sp \<le> length s"
    by (auto simp: whiteSpace_nonempty prefix_length_le)
  then show "(drop (length sp) s, s) \<in> measure length"
    by (cases sp) auto
qed simp

function TrimRightSpace :: "string \<Rightarrow> string" where
  "TrimRightSpace s =
     (case find (\<lambda>sp. suffix sp s) whiteSpace of
        None \<Rightarrow> s
      | Some sp \<Rightarrow> TrimRightSpace (take (length s - length sp) s))"
  by pat_completeness auto
termination
proof (relation "measure length")
  fix s sp
  assume "find (\<lambda>sp. suffix sp s) whiteSpace = Some sp"
  then have "sp \<in> set whiteSpace" and "suffix sp s"
    by (auto simp: find_Some_iff)
  then have "sp \<noteq> []" and "length sp \<le> length s"
    by (auto simp: whiteSpace_nonempty suffix_length_le)
  then show "(take (length s - length sp) s, s) \<in> measure length"
    by (cases sp) auto
qed simp

definition TrimSpace :: "string \<Rightarrow> string" where
  "TrimSpace s = TrimRightSpace (TrimLeftSpace s)"

declare TrimLeftSpace.simps [simp del] TrimRightSpace.simps [simp del]

section \<open>The regular expression for custom emoji codes\<close>

text \<open>
  \<^verbatim>\<open>emojiRegex = regexp.MustCompile("(m?)(^|[^<]):!?.+?:")\<close>. Package \<^verbatim>\<open>regexp\<close> finds the
  leftmost match and, among the matches that start there, the one a backtracking search
  finds first: \<open>r?\<close> tries \<open>r\<close> before the empty string, \<open>r|s\<close> tries \<open>r\<close> before \<open>s\<close>,
  \<open>.+?\<close> tries the shorter repetition first. \<open>.\<close> does not match a line feed, and \<open>^\<close>
  (no flag is set) matches only at the beginning of the text. The matcher returns, in that
  order of preference, what is left of the input after each way of matching; the flag
  tells whether the position is still the beginning of the text. All literals of the
  pattern are ASCII, so matching byte by byte finds the same colons as matching rune by
  rune.
\<close>

datatype re =
    Lit char
  | NotLit char
  | BeginText
  | AnyPlusLazy
  | Opt re
  | Alt re re
  | Cat re re

fun anyStarLazy :: "string \<Rightarrow> string list" where
  "anyStarLazy [] = [[]]"
| "anyStarLazy (c # cs) = (c # cs) # (if c = CHR 0x0A then [] else anyStarLazy cs)"

fun rmatch :: "re \<Rightarrow> bool \<Rightarrow> string \<Rightarrow> (bool \<times> string) list" where
  "rmatch (Lit c) b s =
     (case s of [] \<Rightarrow> [] | x # xs \<Rightarrow> if x = c then [(False, xs)] else [])"
| "rmatch (NotLit c) b s =
     (case s of [] \<Rightarrow> [] | x # xs \<Rightarrow> if x = c then [] else [(False, xs)])"
| "rmatch BeginText b s = (if b then [(b, s)] else [])"
| "rmatch AnyPlusLazy b s =
     (case s of [] \<Rightarrow> []
      | x # xs \<Rightarrow> if x = CHR 0x0A then [] else map (Pair False) (anyStarLazy xs))"
| "rmatch (Opt r) b s = rmatch r b s @ [(b, s)]"
| "rmatch (Alt r1 r2) b s = rmatch r1 b s @ rmatch r2 b s"
| "rmatch (Cat r1 r2) b s = concat (map (\<lambda>(b', s'). rmatch r2 b' s') (rmatch r1 b s))"

definition emojiRegex :: re where
  "emojiRegex =
     Cat (Opt (Lit CHR ''m''))
      (Cat (Alt BeginText (NotLit CHR ''<''))
        (Cat (Lit CHR '':'')
          (Cat (Opt (Lit CHR ''!''))
            (Cat AnyPlusLazy (Lit CHR '':'')))))"

text \<open>The preferred match that starts at the current position: what follows it.\<close>

definition matchAt :: "re \<Rightarrow> bool \<Rightarrow> string \<Rightarrow> string option" where
  "matchAt r b s = (case rmatch r b s of [] \<Rightarrow> None | (_, rest) # _ \<Rightarrow> Some rest)"

lemma anyStarLazy_length: "r \<in> set (anyStarLazy s) \<Longrightarrow> length r \<le> length s"
  by (induction s) (auto split: if_splits)

lemma rmatch_length: "(b', r) \<in> set (rmatch e b s) \<Longrightarrow> length r \<le> length s"
proof (induction e arbitrary: b s b' r)
  case (Cat e1 e2)
  from Cat.prems obtain b1 s1 where
    "(b1, s1) \<in> set (rmatch e1 b s)" and "(b', r) \<in> set (rmatch e2 b1 s1)"
    by auto
  then have "length s1 \<le> length s" and "length r \<le> length s1"
    using Cat.IH by blast+
  then show ?case by simp
next
  case AnyPlusLazy
  then show ?case
    by (auto split: list.splits if_splits dest: anyStarLazy_length)
qed (auto split: list.splits if_splits)

lemma rmatch_Lit_shorter:
  "(b', r) \<in> set (rmatch (Cat (Lit c) e) b s) \<Longrightarrow> length r < length s"
  by (auto split: list.splits if_splits dest: rmatch_length)

lemma rmatch_Cat:
  "(b', r) \<in> set (rmatch (Cat e1 e2) b s) \<longleftrightarrow>
     (\<exists>b1 s1. (b1, s1) \<in> set (rmatch e1 b s) \<and> (b', r) \<in> set (rmatch e2 b1 s1))"
  by auto

lemma emojiRegex_consumes:
  assumes "matchAt emojiRegex b s = Some rest"
  shows "length rest < length s"
proof -
  let ?tail = "Cat (Lit CHR '':'') (Cat (Opt (Lit CHR ''!'')) (Cat AnyPlusLazy (Lit CHR '':'')))"
  let ?head = "Alt BeginText (NotLit CHR ''<'')"
  from assms obtain b' where "(b', rest) \<in> set (rmatch emojiRegex b s)"
    by (auto simp: matchAt_def split: list.splits)
  then have "(b', rest) \<in> set (rmatch (Cat (Opt (Lit CHR ''m'')) (Cat ?head ?tail)) b s)"
    by (simp only: emojiRegex_def)
  then obtain b1 s1 where
    s1: "(b1, s1) \<in> set (rmatch (Opt (Lit CHR ''m'')) b s)" and
    r1: "(b', rest) \<in> set (rmatch (Cat ?head ?tail) b1 s1)"
    using rmatch_Cat [of b' rest "Opt (Lit CHR ''m'')" "Cat ?head ?tail" b s] by blast
  from r1 obtain b2 s2 where
    s2: "(b2, s2) \<in> set (rmatch ?head b1 s1)" and
    r: "(b', rest) \<in> set (rmatch ?tail b2 s2)"
    using rmatch_Cat [of b' rest ?head ?tail b1 s1] by blast
  from r have "length rest < length s2" by (rule rmatch_Lit_shorter)
  moreover from s2 have "length s2 \<le> length s1" by (rule rmatch_length)
  moreover from s1 have "length s1 \<le> length s" by (rule rmatch_length)
  ultimately show ?thesis by simp
qed

text \<open>
  \<^verbatim>\<open>emojiRegex.ReplaceAllStringFunc(message, repl)\<close>: the text between the matches is
  copied, every match is replaced by what \<open>repl\<close> returns for it, and the search goes on
  behind the match. The pattern never matches the empty string. The callbacks of
  \<^verbatim>\<open>replaceCustomEmojiSequences\<close> change the state cache, so \<open>repl\<close> takes and returns the
  state.
\<close>

function emojiRegex_ReplaceAllStringFunc ::
  "(string \<Rightarrow> 'w \<Rightarrow> string \<times> 'w) \<Rightarrow> bool \<Rightarrow> string \<Rightarrow> 'w \<Rightarrow> string \<times> 'w" where
  "emojiRegex_ReplaceAllStringFunc repl b [] w = ([], w)"
| "emojiRegex_ReplaceAllStringFunc repl b (c # cs) w =
     (case matchAt emojiRegex b (c # cs) of
        None \<Rightarrow>
          (case emojiRegex_ReplaceAllStringFunc repl False cs w of
             (out, w') \<Rightarrow> (c # out, w'))
      | Some rest \<Rightarrow>
          (case repl (take (length (c # cs) - length rest) (c # cs)) w of
             (replaced, w1) \<Rightarrow>
               (case emojiRegex_ReplaceAllStringFunc repl False rest w1 of
                  (out, w2) \<Rightarrow> (replaced @ out, w2))))"
  by pat_completeness auto
termination
proof (relation "measure (\<lambda>(repl, b, s, w). length s)")
  fix repl :: "string \<Rightarrow> 'w \<Rightarrow> string \<times> 'w" and b c cs and w :: 'w and rest x replaced w1
  assume "matchAt emojiRegex b (c # cs) = Some rest"
  then have "length rest < length (c # cs)" by (rule emojiRegex_consumes)
  then show "((repl, False, rest, w1), (repl, b, c # cs, w)) \<in> measure (\<lambda>(repl, b, s, w). length s)"
    by simp
qed simp_all


section \<open>Data model\<close>

text \<open>
  The records hold the fields of the \<^verbatim>\<open>discordgo\<close> types that \<^verbatim>\<open>ui/window.go\<close> reads or
  writes. A Go pointer to a channel, a message or a tree node is an address (\<open>ref\<close>), and
  the state maps the address to the object, so that two pointers are equal exactly when
  they are the same address; a pointer that may be \<^verbatim>\<open>nil\<close> is a \<open>ref option\<close>. Guilds,
  members, users and emojis are only read through their pointers, or changed as a whole
  by the state cache, and are held by value.
\<close>

type_synonym ref = nat

datatype UserPremiumType =
    UserPremiumTypeNone
  | UserPremiumTypeNitroClassic
  | UserPremiumTypeNitro

datatype ChannelType =
    ChannelTypeGuildText
  | ChannelTypeDM
  | ChannelTypeGuildVoice
  | ChannelTypeGroupDM
  | ChannelTypeGuildCategory

record User =
  u_ID :: string
  u_Username :: string
  u_Discriminator :: string
  u_PremiumType :: UserPremiumType

record Emoji =
  e_ID :: string
  e_Name :: string
  e_Roles :: "string list"
  e_Animated :: bool

record Member =
  m_GuildID :: string
  m_User :: User
  m_Nick :: string
  m_Roles :: "string list"

record Message =
  msg_ID :: string
  msg_ChannelID :: string
  msg_GuildID :: string
  msg_Content :: string
  msg_Author :: User
  msg_Mentions :: "User list"
  msg_MentionRoles :: "string list"
  msg_MentionEveryone :: bool

record Channel =
  c_ID :: string
  c_GuildID :: string
  c_Name :: string
  c_Topic :: string
  c_Type :: ChannelType
  c_LastMessageID :: string
  c_Recipients :: "User list"
  c_Messages :: "ref list"

record Guild =
  g_ID :: string
  g_Name :: string
  g_Emojis :: "Emoji list"
  g_Channels :: "ref list"
  g_Members :: "Member list"

text \<open>
  What the application shows, the value of \<^verbatim>\<open>window.currentContainer\<close>: the main layout
  \<^verbatim>\<open>window.rootContainer\<close> (lines 840 and 841, 1922 and 1923, 2415 and 2416), the view of
  the shortcuts (line 1993) or the frame of a prompt (line 2411).
\<close>

datatype container = rootContainer | shortcutsView | promptFrame

text \<open>
  The \<^verbatim>\<open>Window\<close> struct with what is reachable from it: its own fields (lines 49 to 93),
  the state cache of the session (\<^verbatim>\<open>window.session.State\<close>), the objects behind the
  pointers, the state of the widgets that the modelled functions read, and the number of
  REST calls made so far (the answer of the network may change from one call to the
  next). Of the timer \<^verbatim>\<open>userActiveTimer\<close> the state holds the time at which it fires next,
  in nanoseconds since the start of the program, and \<open>None\<close> from the moment it has fired
  until it is reset.
\<close>

record Window =
  editingMessageID :: "string option"
  selectedGuildNode :: "ref option"
  previousGuildNode :: "ref option"
  selectedGuild :: "Guild option"
  previousGuild :: "Guild option"
  selectedChannelNode :: "ref option"
  previousChannelNode :: "ref option"
  selectedChannel :: "ref option"
  previousChannel :: "ref option"
  userActive :: bool
  userActiveTimer :: "nat option"
  currentContainer :: container
  dialogReplacement_IsVisible :: bool
  State_User :: User
  State_Guilds :: "Guild list"
  State_channelMap :: "string \<rightharpoonup> ref"
  channelAt :: "ref \<Rightarrow> Channel"
  messageAt :: "ref \<Rightarrow> Message"
  nodeReference :: "ref \<Rightarrow> string option"
  leftArea_CurrentPage :: string
  channelTree_CurrentNode :: "ref option"
  guildList_Children :: "ref list"
  chatView_data :: "ref list"
  restCalls :: nat
  logged :: "string list"

text \<open>
  What a function does to the widgets, the dialogs, the log and the network is returned
  as the list of its calls, in the order of the source; what a widget does to its own
  state behind such a call is not followed. A function literal handed to
  \<^verbatim>\<open>QueueUpdateDraw\<close> or \<^verbatim>\<open>QueueUpdateDrawSynchronized\<close> runs later, on the UI thread: it is
  recorded with the calls it will make. The literal of lines 1705 to 1717 also writes
  fields of the window; it is recorded by name and its body is \<open>guildRemoveUpdate\<close> below.
  \<^verbatim>\<open>editMessage\<close> and \<^verbatim>\<open>sendMessage\<close> (started as a goroutine) are the two functions that
  send a text to the service.
\<close>

datatype color =
    PrimaryTextColor
  | AttentionColor
  | ContrastBackgroundColor
  | BorderColor
  | BorderFocusColor

datatype effect =
    messageInput_SetText string
  | messageInput_SetBorderColor color
  | messageInput_SetBorderFocusColor color
  | ShowErrorDialog string
  | askForMessageDeletion string bool
  | editMessage string string string
  | go_sendMessage string string
  | leftArea_SwitchToPage string
  | guildList_SetCurrentNode "ref option"
  | guildList_RemoveGuild string
  | channelTree_SetCurrentNode "ref option"
  | channelTree_Clear
  | channelTree_MarkChannelAsMentioned string
  | channelTree_MarkChannelAsUnread string
  | userList_Clear
  | privateList_MarkChannelAsLoaded ref
  | privateList_MarkChannelAsUnread ref
  | privateList_ReorderChannelList
  | app_SetFocus_messageInput
  | app_Stop
  | doRestart_send bool
  | chatView_SetMessages "ref list"
  | chatView_ClearSelection
  | chatView_ScrollToEnd
  | chatView_SetTitle string
  | chatView_ClearViewAndCache
  | chatView_AddMessage ref
  | chatView_UpdateMessage ref
  | TreeNode_SetColor ref color
  | readstate_UpdateReadBuffered ref string
  | readstate_UpdateReadLocal string string
  | go_UpdateRead_and_selectGuild ref
  | beeep_Notify string string
  | log_Printf string
  | edit_send ref
  | QueueUpdateDraw "effect list"
  | QueueUpdateDrawSynchronized "effect list"
  | QueueUpdateDraw_guildRemoveUpdate string

text \<open>
  A function returns (\<open>Returned\<close>, with the error or \<^verbatim>\<open>nil\<close>) or panics on a \<^verbatim>\<open>nil\<close> pointer
  or an index out of range.
\<close>

datatype outcome = Returned "string option" | Panicked

text \<open>A key event of the terminal (\<^verbatim>\<open>tcell.EventKey\<close>): the key, the rune and the mask of
  the modifiers.\<close>

record EventKey =
  ek_Key :: nat
  ek_Rune :: nat
  ek_Modifiers :: nat

text \<open>
  What \<^verbatim>\<open>ui/window.go\<close> calls and its source does not hold: the scripting hook, the
  standard emoji table, \<^verbatim>\<open>codeBlockRegex\<close> (declared in another file of the package; given
  here by the way it cuts a text into matches, marked \<open>True\<close>, and the text between them),
  \<^verbatim>\<open>strings.ToLower\<close> (Unicode case mapping), the REST calls \<^verbatim>\<open>session.GuildMember\<close> and
  \<^verbatim>\<open>session.ChannelMessages\<close> (by the number of the call; \<open>Inl\<close> is the error; the messages
  that arrive are objects of the store), what \<^verbatim>\<open>State.MessageAdd\<close> of the cache does to the
  channels and messages it holds, the helpers of packages \<^verbatim>\<open>discordutil\<close>, \<^verbatim>\<open>readstate\<close>,
  \<^verbatim>\<open>config\<close> and \<^verbatim>\<open>beeep\<close>, the handlers stored in the fields \<^verbatim>\<open>onChannelSelect\<close> and
  \<^verbatim>\<open>onGuildSelect\<close> of the lists, and the key bound to \<^verbatim>\<open>shortcuts.ExitApplication\<close>.
  Theorems hold for every environment.
\<close>

record Env =
  ToLower :: "string \<Rightarrow> string"
  codeBlockRegex_pieces :: "string \<Rightarrow> (bool \<times> string) list"
  OnMessageSend :: "string \<Rightarrow> string"
  discordemojimap_Replace :: "string \<Rightarrow> string"
  GuildMember :: "nat \<Rightarrow> string \<Rightarrow> string \<Rightarrow> string + Member"
  ChannelMessages :: "nat \<Rightarrow> string \<Rightarrow> string + ref list"
  cache_MessageAdd ::
    "ref \<Rightarrow> (ref \<Rightarrow> Channel) \<times> (ref \<Rightarrow> Message) \<Rightarrow> (ref \<Rightarrow> Channel) \<times> (ref \<Rightarrow> Message)"
  SortMessagesByTimestamp :: "(ref \<Rightarrow> Message) \<Rightarrow> ref list \<Rightarrow> ref list"
  GetPrivateChannelName :: "Channel \<Rightarrow> string"
  HasReadMessagesPermission :: "string \<Rightarrow> Window \<Rightarrow> bool"
  MentionsCurrentUserExplicitly :: "Window \<Rightarrow> Message \<Rightarrow> bool"
  ContentWithMentionsReplaced :: "Message \<Rightarrow> string"
  HasGuildBeenRead :: "string \<Rightarrow> bool"
  IsChannelMuted :: "Channel \<Rightarrow> bool"
  beeep_Notify_error :: "string \<Rightarrow> string \<Rightarrow> string option"
  DesktopNotifications :: bool
  FocusMessageInputAfterChannelSelection :: bool
  privateList_onChannelSelect :: "ref option \<Rightarrow> string \<Rightarrow> Window \<Rightarrow> effect list \<times> Window"
  guildList_onGuildSelect :: "ref option \<Rightarrow> string \<Rightarrow> Window \<Rightarrow> effect list \<times> Window"
  channelTree_onChannelSelect :: "string \<Rightarrow> Window \<Rightarrow> effect list \<times> Window"
  ExitApplication_Equals :: "EventKey \<Rightarrow> bool"

subsection \<open>The state cache\<close>

text \<open>
  \<^verbatim>\<open>State.Channel\<close>, \<^verbatim>\<open>State.Guild\<close>, \<^verbatim>\<open>State.Member\<close>, \<^verbatim>\<open>State.Members\<close> and
  \<^verbatim>\<open>State.MemberAdd\<close> of the session's cache: a channel and a guild are found by their
  id, a member by the guild's id and the user's id; \<^verbatim>\<open>MemberAdd\<close> stores the member in the guild its \<^verbatim>\<open>GuildID\<close> names, in place of a
  member with the same user id, and does nothing when the cache has no such guild. A
  lookup that fails returns \<^verbatim>\<open>nil\<close> and an error, here \<open>None\<close>.
\<close>

definition State_Channel :: "Window \<Rightarrow> string \<Rightarrow> ref option" where
  "State_Channel w channelID = State_channelMap w channelID"

definition State_MessageAdd :: "Env \<Rightarrow> ref \<Rightarrow> Window \<Rightarrow> Window" where
  "State_MessageAdd env message w =
     (case cache_MessageAdd env message (channelAt w, messageAt w) of
        (channels, messages) \<Rightarrow> w\<lparr>channelAt := channels, messageAt := messages\<rparr>)"

definition State_Guild :: "Window \<Rightarrow> string \<Rightarrow> Guild option" where
  "State_Guild w guildID = find (\<lambda>g. g_ID g = guildID) (State_Guilds w)"

definition State_Member :: "Window \<Rightarrow> string \<Rightarrow> string \<Rightarrow> Member option" where
  "State_Member w guildID userID =
     (case State_Guild w guildID of
        None \<Rightarrow> None
      | Some g \<Rightarrow> find (\<lambda>m. u_ID (m_User m) = userID) (g_Members g))"

definition State_Members :: "Window \<Rightarrow> string \<Rightarrow> Member list option" where
  "State_Members w guildID = map_option g_Members (State_Guild w guildID)"

fun putMember :: "Member \<Rightarrow> Member list \<Rightarrow> Member list" where
  "putMember m [] = [m]"
| "putMember m (x # xs) =
     (if u_ID (m_User x) = u_ID (m_User m) then m # xs else x # putMember m xs)"

fun putMemberInGuild :: "Member \<Rightarrow> Guild list \<Rightarrow> Guild list" where
  "putMemberInGuild m [] = []"
| "putMemberInGuild m (g # gs) =
     (if g_ID g = m_GuildID m then g\<lparr>g_Members := putMember m (g_Members g)\<rparr> # gs
      else g # putMemberInGuild m gs)"

definition State_MemberAdd :: "Member \<Rightarrow> Window \<Rightarrow> Window" where
  "State_MemberAdd m w = w\<lparr>State_Guilds := putMemberInGuild m (State_Guilds w)\<rparr>"

section \<open>Composing a message\<close>

subsection \<open>Custom emojis (lines 1206 to 1295)\<close>

definition emojiReference :: "Emoji \<Rightarrow> string" where
  "emojiReference emoji = ''<:'' @ e_Name emoji @ '':'' @ e_ID emoji @ ''>''"

definition animatedEmojiReference :: "Emoji \<Rightarrow> string" where
  "animatedEmojiReference emoji = ''<a:'' @ e_Name emoji @ '':'' @ e_ID emoji @ ''>''"

text \<open>
  \<^verbatim>\<open>findMatchInGuild\<close>: the loop over \<^verbatim>\<open>guild.Emojis\<close>. An empty result means that nothing
  was found. For an emoji with roles the member of the local user is looked up in the
  cache and, when it is not there, fetched and added to the cache; the fetched member is
  a variable of the inner block, so \<^verbatim>\<open>selfMember\<close> of the outer block is still \<^verbatim>\<open>nil\<close> then
  and the loop over the roles is skipped. Whether or not a role matches, the emoji is
  returned; it is passed over only when the member can be neither found nor fetched.
\<close>

fun findMatchInEmojis ::
  "Env \<Rightarrow> string \<Rightarrow> bool \<Rightarrow> string \<Rightarrow> Emoji list \<Rightarrow> Window \<Rightarrow> string \<times> Window" where
  "findMatchInEmojis env guildID omitGWCheck emojiSequence [] w = ([], w)"
| "findMatchInEmojis env guildID omitGWCheck emojiSequence (emoji # emojis) w =
     (if e_Animated emoji then findMatchInEmojis env guildID omitGWCheck emojiSequence emojis w
      else if ToLower env (e_Name emoji) = emojiSequence
              \<and> (omitGWCheck \<or> HasPrefix (e_Name emoji) ''GW'') then
        (if length (e_Roles emoji) \<noteq> 0 then
           (case State_Member w guildID (u_ID (State_User w)) of
              None \<Rightarrow>
                (case GuildMember env (restCalls w) guildID (u_ID (State_User w)) of
                   Inl discordError \<Rightarrow>
                     findMatchInEmojis env guildID omitGWCheck emojiSequence emojis
                       (w\<lparr>restCalls := Suc (restCalls w), logged := logged w @ [discordError]\<rparr>)
                 | Inr fetched \<Rightarrow>
                     (emojiReference emoji,
                      State_MemberAdd fetched (w\<lparr>restCalls := Suc (restCalls w)\<rparr>)))
            | Some selfMember \<Rightarrow>
                (if list_ex (\<lambda>emojiRole. list_ex (\<lambda>selfRole. selfRole = emojiRole)
                       (m_Roles selfMember)) (e_Roles emoji)
                 then (emojiReference emoji, w)
                 else (emojiReference emoji, w)))
         else (emojiReference emoji, w))
      else findMatchInEmojis env guildID omitGWCheck emojiSequence emojis w)"

definition findMatchInGuild ::
  "Env \<Rightarrow> Guild \<Rightarrow> bool \<Rightarrow> string \<Rightarrow> Window \<Rightarrow> string \<times> Window" where
  "findMatchInGuild env guild omitGWCheck emojiSequence w =
     findMatchInEmojis env (g_ID guild) omitGWCheck emojiSequence (g_Emojis guild) w"

text \<open>The two local values every callback starts with (lines 1215, 1216 and 1234, 1235).\<close>

definition firstDoubleColon :: "string \<Rightarrow> int" where
  "firstDoubleColon match = IndexRune match CHR '':''"

definition emojiSequenceOf :: "Env \<Rightarrow> string \<Rightarrow> string" where
  "emojiSequenceOf env match =
     ToLower env (TrimPrefix
       (slice match (firstDoubleColon match + 1) (int (length match) - 1)) ''!'')"

text \<open>The callback for users with nitro (lines 1214 to 1230): the first emoji of that
  name in any guild, animated or not.\<close>

fun nitroMatchInEmojis :: "Env \<Rightarrow> string \<Rightarrow> Emoji list \<Rightarrow> string option" where
  "nitroMatchInEmojis env emojiSequence [] = None"
| "nitroMatchInEmojis env emojiSequence (emoji # emojis) =
     (if ToLower env (e_Name emoji) = emojiSequence then
        (if e_Animated emoji then Some (animatedEmojiReference emoji)
         else Some (emojiReference emoji))
      else nitroMatchInEmojis env emojiSequence emojis)"

fun nitroMatchInGuilds :: "Env \<Rightarrow> string \<Rightarrow> Guild list \<Rightarrow> string option" where
  "nitroMatchInGuilds env emojiSequence [] = None"
| "nitroMatchInGuilds env emojiSequence (guild # guilds) =
     (case nitroMatchInEmojis env emojiSequence (g_Emojis guild) of
        Some found \<Rightarrow> Some found
      | None \<Rightarrow> nitroMatchInGuilds env emojiSequence guilds)"

definition nitroReplace :: "Env \<Rightarrow> string \<Rightarrow> Window \<Rightarrow> string \<times> Window" where
  "nitroReplace env match w =
     (case nitroMatchInGuilds env (emojiSequenceOf env match) (State_Guilds w) of
        Some found \<Rightarrow> (slice match 0 (firstDoubleColon match) @ found, w)
      | None \<Rightarrow> (match, w))"

text \<open>The callback for everyone else (lines 1233 to 1254): the guild of the channel
  first, then the emojis of all guilds whose name starts with \<open>GW\<close>.\<close>

fun globalMatchInGuilds :: "Env \<Rightarrow> string \<Rightarrow> Guild list \<Rightarrow> Window \<Rightarrow> string \<times> Window" where
  "globalMatchInGuilds env emojiSequence [] w = ([], w)"
| "globalMatchInGuilds env emojiSequence (guild # guilds) w =
     (case findMatchInGuild env guild False emojiSequence w of
        (emojiResult, w') \<Rightarrow>
          if emojiResult \<noteq> [] then (emojiResult, w')
          else globalMatchInGuilds env emojiSequence guilds w')"

definition defaultReplace :: "Env \<Rightarrow> Guild option \<Rightarrow> string \<Rightarrow> Window \<Rightarrow> string \<times> Window" where
  "defaultReplace env channelGuild match w =
     (case (case channelGuild of
              None \<Rightarrow> ([], w)
            | Some guild \<Rightarrow> findMatchInGuild env guild True (emojiSequenceOf env match) w) of
        (localResult, w1) \<Rightarrow>
          if localResult \<noteq> [] then (slice match 0 (firstDoubleColon match) @ localResult, w1)
          else
            (case globalMatchInGuilds env (emojiSequenceOf env match) (State_Guilds w1) w1 of
               (emojiResult, w2) \<Rightarrow>
                 if emojiResult \<noteq> [] then
                   (slice match 0 (firstDoubleColon match) @ emojiResult, w2)
                 else (match, w2)))"

definition replaceCustomEmojiSequences ::
  "Env \<Rightarrow> Guild option \<Rightarrow> string \<Rightarrow> Window \<Rightarrow> string \<times> Window" where
  "replaceCustomEmojiSequences env channelGuild message w =
     (if u_PremiumType (State_User w) = UserPremiumTypeNitroClassic
         \<or> u_PremiumType (State_User w) = UserPremiumTypeNitro
      then emojiRegex_ReplaceAllStringFunc (nitroReplace env) True message w
      else emojiRegex_ReplaceAllStringFunc (defaultReplace env channelGuild) True message w)"


subsection \<open>\<^verbatim>\<open>prepareMessage\<close> (lines 1157 to 1204)\<close>

definition escapeCodeBlocks :: "Env \<Rightarrow> string \<Rightarrow> string" where
  "escapeCodeBlocks env inputText =
     concat (map (\<lambda>(isMatch, input).
                    if isMatch then ReplaceAll input '':'' [CHR 0x5C, CHR '':''] else input)
                 (codeBlockRegex_pieces env inputText))"

fun replaceChannelNames :: "Channel list \<Rightarrow> string \<Rightarrow> string" where
  "replaceChannelNames [] message = message"
| "replaceChannelNames (channel # channels) message =
     replaceChannelNames channels
       (if c_Type channel = ChannelTypeGuildText
        then ReplaceAll message (''#'' @ c_Name channel) (''<#'' @ c_ID channel @ ''>'')
        else message)"

fun replaceUserNames :: "User list \<Rightarrow> string \<Rightarrow> string" where
  "replaceUserNames [] message = message"
| "replaceUserNames (user # users) message =
     replaceUserNames users
       (ReplaceAll message (''@'' @ u_Username user @ ''#'' @ u_Discriminator user)
          (''<@'' @ u_ID user @ ''>''))"

definition prepareMessage :: "Env \<Rightarrow> ref \<Rightarrow> string \<Rightarrow> Window \<Rightarrow> string \<times> Window" where
  "prepareMessage env targetChannel inputText w =
     (let message = escapeCodeBlocks env inputText;
          message = OnMessageSend env message;
          message = discordemojimap_Replace env message;
          target = channelAt w targetChannel
      in case (if c_GuildID target \<noteq> [] then
                 (case State_Guild w (c_GuildID target) of
                    Some channelGuild \<Rightarrow>
                      replaceCustomEmojiSequences env (Some channelGuild)
                        (replaceChannelNames (map (channelAt w) (g_Channels channelGuild)) message) w
                  | None \<Rightarrow> (message, w))
               else replaceCustomEmojiSequences env None message w) of
           (message, w') \<Rightarrow>
             (let message = ReplaceAll message [CHR 0x5C, CHR '':''] '':''
              in if c_GuildID target = [] then
                   (replaceUserNames (c_Recipients target) message, w')
                 else
                   (case State_Members w' (c_GuildID target) of
                      Some members \<Rightarrow> (replaceUserNames (map m_User members) message, w')
                    | None \<Rightarrow> (message, w'))))"

subsection \<open>\<^verbatim>\<open>TrySendMessage\<close> (lines 971 to 1006)\<close>

definition TrySendMessage ::
  "Env \<Rightarrow> ref option \<Rightarrow> string \<Rightarrow> Window \<Rightarrow> effect list \<times> Window" where
  "TrySendMessage env targetChannel message w =
     (case targetChannel of
        None \<Rightarrow> ([], w)
      | Some target \<Rightarrow>
          if length message = 0 then
            (case editingMessageID w of
               Some msgIDCopy \<Rightarrow> ([askForMessageDeletion msgIDCopy True], w)
             | None \<Rightarrow> ([], w))
          else if length (TrimSpace message) = 0 then
            ([QueueUpdateDraw [messageInput_SetText []]], w)
          else
            (case prepareMessage env target (TrimSpace message) w of
               (prepared, w') \<Rightarrow>
                 if length prepared > 2000 then
                   ([QueueUpdateDraw
                       [ShowErrorDialog ''Messages must be 2000 characters or less to send'']],
                    w')
                 else
                   (case editingMessageID w' of
                      Some messageID \<Rightarrow>
                        ([editMessage (c_ID (channelAt w' target)) messageID prepared], w')
                    | None \<Rightarrow> ([go_sendMessage (c_ID (channelAt w' target)) prepared], w'))))"

section \<open>Navigation\<close>

definition guildPageName :: string where
  "guildPageName = ''Guilds''"

definition privatePageName :: string where
  "privatePageName = ''Private''"

subsection \<open>\<^verbatim>\<open>SwitchToPreviousChannel\<close> (lines 2160 to 2204)\<close>

text \<open>The number \<^verbatim>\<open>%v\<close> prints for a channel type.\<close>

definition ChannelType_number :: "ChannelType \<Rightarrow> string" where
  "ChannelType_number t =
     (case t of
        ChannelTypeGuildText \<Rightarrow> ''0''
      | ChannelTypeDM \<Rightarrow> ''1''
      | ChannelTypeGuildVoice \<Rightarrow> ''2''
      | ChannelTypeGroupDM \<Rightarrow> ''3''
      | ChannelTypeGuildCategory \<Rightarrow> ''4'')"

text \<open>The case of a private channel (lines 2177 to 2180, then 2202 and 2203).\<close>

definition switchToPrivateChannel :: "Env \<Rightarrow> ref \<Rightarrow> Window \<Rightarrow> outcome \<times> effect list \<times> Window" where
  "switchToPrivateChannel env previous w =
     (case privateList_onChannelSelect env (previousChannelNode w)
             (c_ID (channelAt w previous)) w of
        (selected, w') \<Rightarrow>
          (Returned None,
           (if leftArea_CurrentPage w \<noteq> privatePageName
            then [leftArea_SwitchToPage privatePageName] else [])
           @ selected @ [app_SetFocus_messageInput],
           w'))"

text \<open>
  The rest of the case of a guild channel, once the guild was found and may be read
  (lines 2191 to 2198, then 2202 and 2203). The handlers run at once; the fields
  \<^verbatim>\<open>previousChannelNode\<close> and \<^verbatim>\<open>previousChannel\<close> are read after \<^verbatim>\<open>onGuildSelect\<close> has run.
\<close>

definition switchToGuildChannel :: "Env \<Rightarrow> Guild \<Rightarrow> Window \<Rightarrow> outcome \<times> effect list \<times> Window" where
  "switchToGuildChannel env guild w =
     (case guildList_onGuildSelect env (previousGuildNode w) (g_ID guild) w of
        (guildSelected, w1) \<Rightarrow>
          (let before =
                 (if leftArea_CurrentPage w \<noteq> guildPageName
                  then [leftArea_SwitchToPage guildPageName] else [])
                 @ [guildList_SetCurrentNode (previousGuildNode w)] @ guildSelected
                 @ [channelTree_SetCurrentNode (previousChannelNode w1)]
           in case previousChannel w1 of
                None \<Rightarrow> (Panicked, before, w1)
              | Some previous \<Rightarrow>
                  (case channelTree_onChannelSelect env (c_ID (channelAt w1 previous)) w1 of
                     (channelSelected, w2) \<Rightarrow>
                       (Returned None,
                        before @ channelSelected @ [app_SetFocus_messageInput], w2))))"

text \<open>
  In the two branches that clear a stale reference, the message of the error is built
  from \<^verbatim>\<open>window.previousChannel.Name\<close> (line 2171) and \<^verbatim>\<open>window.previousGuild.Name\<close> (line
  2186) after the field was set to \<^verbatim>\<open>nil\<close> (lines 2169 and 2184): reading the name
  dereferences \<^verbatim>\<open>nil\<close>, and the function panics there instead of returning. Line 2182
  reads \<^verbatim>\<open>window.previousGuild.ID\<close>, which panics when there is no previous guild.
\<close>

definition SwitchToPreviousChannel :: "Env \<Rightarrow> Window \<Rightarrow> outcome \<times> effect list \<times> Window" where
  "SwitchToPreviousChannel env w =
     (case previousChannel w of
        None \<Rightarrow> (Returned None, [], w)
      | Some previous \<Rightarrow>
          if previousChannel w = selectedChannel w then (Returned None, [], w)
          else
            (case State_Channel w (c_ID (channelAt w previous)) of
               None \<Rightarrow>
                 (Panicked, [], w\<lparr>previousChannel := None, previousChannelNode := None\<rparr>)
             | Some cached \<Rightarrow>
                 (case c_Type (channelAt w previous) of
                    ChannelTypeDM \<Rightarrow> switchToPrivateChannel env previous w
                  | ChannelTypeGroupDM \<Rightarrow> switchToPrivateChannel env previous w
                  | ChannelTypeGuildText \<Rightarrow>
                      (case previousGuild w of
                         None \<Rightarrow> (Panicked, [], w)
                       | Some guild \<Rightarrow>
                           (case State_Guild w (g_ID guild) of
                              None \<Rightarrow>
                                (Panicked, [],
                                 w\<lparr>previousGuild := None, previousGuildNode := None\<rparr>)
                            | Some cachedGuild \<Rightarrow>
                                if \<not> HasReadMessagesPermission env (c_ID (channelAt w previous)) w
                                then
                                  (Returned (Some (''No read permissions for channel: ''
                                                    @ c_Name (channelAt w previous))), [], w)
                                else switchToGuildChannel env guild w))
                  | other \<Rightarrow>
                      (Returned (Some (''Invalid channel type: '' @ ChannelType_number other)),
                       [], w))))"

subsection \<open>\<^verbatim>\<open>LoadChannel\<close> (lines 2227 to 2329)\<close>

text \<open>
  \<^verbatim>\<open>updateServerReadStatus\<close> (lines 1145 to 1155) colours the node of a guild; called with
  a \<^verbatim>\<open>nil\<close> node it panics (\<open>None\<close>).
\<close>

definition updateServerReadStatus ::
  "Env \<Rightarrow> string \<Rightarrow> ref option \<Rightarrow> bool \<Rightarrow> effect list option" where
  "updateServerReadStatus env guildID guildNode isSelected =
     (case guildNode of
        None \<Rightarrow> None
      | Some node \<Rightarrow>
          Some [TreeNode_SetColor node
                  (if isSelected then ContrastBackgroundColor
                   else if \<not> HasGuildBeenRead env guildID then AttentionColor
                   else PrimaryTextColor)])"

text \<open>
  \<^verbatim>\<open>UpdateChatHeader\<close> (lines 2335 to 2351) for a channel that is not \<^verbatim>\<open>nil\<close>. For a direct
  message it reads \<^verbatim>\<open>channel.Recipients[0]\<close> and panics (\<open>None\<close>) when there is no recipient.
\<close>

definition UpdateChatHeader :: "Env \<Rightarrow> Channel \<Rightarrow> effect list option" where
  "UpdateChatHeader env channel =
     (if c_Type channel = ChannelTypeGuildText then
        (if c_Topic channel \<noteq> []
         then Some [chatView_SetTitle (c_Name channel @ '' - '' @ c_Topic channel)]
         else Some [chatView_SetTitle (c_Name channel)])
      else if c_Type channel = ChannelTypeDM then
        (case c_Recipients channel of
           [] \<Rightarrow> None
         | recipient # others \<Rightarrow> Some [chatView_SetTitle (u_Username recipient)])
      else Some [chatView_SetTitle (GetPrivateChannelName env channel)])"

text \<open>
  The messages to show (lines 2229 to 2251): those of the channel, or, when it has a last
  message and none is cached, those the service returns, which are also appended to the
  cached channel. Sorting is in place, so where the slice is the channel's own the
  channel sees the new order.
\<close>

fun setGuildIDs :: "string \<Rightarrow> ref list \<Rightarrow> (ref \<Rightarrow> Message) \<Rightarrow> (ref \<Rightarrow> Message)" where
  "setGuildIDs guildID [] store = store"
| "setGuildIDs guildID (message # messages) store =
     setGuildIDs guildID messages (store(message := (store message)\<lparr>msg_GuildID := guildID\<rparr>))"

definition loadMessages :: "Env \<Rightarrow> ref \<Rightarrow> Window \<Rightarrow> ref list \<times> Window" where
  "loadMessages env channel w =
     (if c_LastMessageID (channelAt w channel) \<noteq> []
         \<and> length (c_Messages (channelAt w channel)) = 0 then
        (case State_Channel w (c_ID (channelAt w channel)) of
           Some cache \<Rightarrow>
             (case ChannelMessages env (restCalls w) (c_ID (channelAt w channel)) of
                Inr messages \<Rightarrow>
                  (let w1 = w\<lparr>restCalls := Suc (restCalls w)\<rparr>;
                       w2 = (if c_GuildID (channelAt w1 channel) \<noteq> []
                             then w1\<lparr>messageAt :=
                                    setGuildIDs (c_GuildID (channelAt w1 channel)) messages
                                      (messageAt w1)\<rparr>
                             else w1);
                       w3 = w2\<lparr>channelAt := (channelAt w2)
                                 (cache := (channelAt w2 cache)
                                    \<lparr>c_Messages := c_Messages (channelAt w2 cache) @ messages\<rparr>)\<rparr>
                   in (SortMessagesByTimestamp env (messageAt w3) messages, w3))
              | Inl discordError \<Rightarrow> ([], w\<lparr>restCalls := Suc (restCalls w)\<rparr>))
         | None \<Rightarrow> ([], w))
      else
        (let sorted = SortMessagesByTimestamp env (messageAt w) (c_Messages (channelAt w channel))
         in (sorted,
             w\<lparr>channelAt := (channelAt w)
                  (channel := (channelAt w channel)\<lparr>c_Messages := sorted\<rparr>)\<rparr>)))"

text \<open>
  The previous selection (lines 2259 to 2271). \<^verbatim>\<open>channel != window.selectedChannel\<close>
  compares the pointers.
\<close>

definition rememberPreviousChannel :: "ref \<Rightarrow> Window \<Rightarrow> Window" where
  "rememberPreviousChannel channel w =
     (case selectedChannel w of
        None \<Rightarrow>
          w\<lparr>previousChannel := Some channel, previousChannelNode := channelTree_CurrentNode w\<rparr>
      | Some selected \<Rightarrow>
          if channel \<noteq> selected then
            (let w' = w\<lparr>previousChannel := selectedChannel w,
                         previousChannelNode := selectedChannelNode w\<rparr>
             in if c_GuildID (channelAt w' selected) = c_GuildID (channelAt w' channel)
                then w'\<lparr>previousGuild := selectedGuild w',
                        previousGuildNode := selectedGuildNode w'\<rparr>
                else w')
          else w)"

text \<open>
  Lines 2275 to 2277: the node of the channel shown so far is coloured as read. The
  condition reads \<^verbatim>\<open>window.selectedChannel.ID\<close> whenever the node is not \<^verbatim>\<open>nil\<close>, and panics
  (\<open>None\<close>) when the channel is.
\<close>

definition markSelectedChannelNodeRead :: "ref \<Rightarrow> Window \<Rightarrow> effect list option" where
  "markSelectedChannelNodeRead channel w =
     (case selectedChannelNode w of
        None \<Rightarrow> Some []
      | Some node \<Rightarrow>
          (case selectedChannel w of
             None \<Rightarrow> None
           | Some selected \<Rightarrow>
               if c_ID (channelAt w channel) \<noteq> c_ID (channelAt w selected)
               then Some [TreeNode_SetColor node PrimaryTextColor]
               else Some []))"

text \<open>\<^verbatim>\<open>exitMessageEditModeAndKeepText\<close> (lines 2101 to 2105).\<close>

definition exitMessageEditModeAndKeepText :: "Window \<Rightarrow> effect list \<times> Window" where
  "exitMessageEditModeAndKeepText w =
     ([messageInput_SetBorderColor BorderColor, messageInput_SetBorderFocusColor BorderFocusColor],
      w\<lparr>editingMessageID := None\<rparr>)"

text \<open>
  The goroutine started at the end (lines 2304 to 2326) marks the channel as read and
  later sets \<^verbatim>\<open>selectedGuild\<close> and \<^verbatim>\<open>selectedGuildNode\<close>; it is recorded as started. It
  writes none of the \<^verbatim>\<open>previous\<close> fields.
\<close>

definition LoadChannel :: "Env \<Rightarrow> ref \<Rightarrow> Window \<Rightarrow> outcome \<times> effect list \<times> Window" where
  "LoadChannel env channel w0 =
     (case loadMessages env channel w0 of
        (messages, w1) \<Rightarrow>
          (let shown = [chatView_SetMessages messages, chatView_ClearSelection,
                        chatView_ScrollToEnd]
           in case UpdateChatHeader env (channelAt w1 channel) of
                None \<Rightarrow> (Panicked, shown, w1)
              | Some header \<Rightarrow>
                  (let w2 = rememberPreviousChannel channel w1
                   in case markSelectedChannelNodeRead channel w2 of
                        None \<Rightarrow> (Panicked, shown @ header, w2)
                      | Some marked \<Rightarrow>
                          (let w3 = w2\<lparr>selectedChannel := Some channel,
                                       selectedChannelNode := channelTree_CurrentNode w2\<rparr>
                           in case (case selectedGuild w3 of
                                      None \<Rightarrow> Some []
                                    | Some guild \<Rightarrow>
                                        if g_ID guild \<noteq> c_GuildID (channelAt w3 channel)
                                        then updateServerReadStatus env (g_ID guild)
                                               (selectedGuildNode w3) False
                                        else Some []) of
                                None \<Rightarrow> (Panicked, shown @ header @ marked, w3)
                              | Some guildMarked \<Rightarrow>
                                  (let w4 = (if c_GuildID (channelAt w3 channel) = []
                                             then w3\<lparr>selectedGuild := None,
                                                     selectedGuildNode := None\<rparr>
                                             else w3);
                                       loaded =
                                         (if c_Type (channelAt w4 channel) = ChannelTypeDM
                                             \<or> c_Type (channelAt w4 channel) = ChannelTypeGroupDM
                                          then [privateList_MarkChannelAsLoaded channel]
                                          else [])
                                   in case exitMessageEditModeAndKeepText w4 of
                                        (exited, w5) \<Rightarrow>
                                          (Returned None,
                                           shown @ header @ marked @ guildMarked @ loaded
                                           @ exited
                                           @ (if FocusMessageInputAfterChannelSelection env
                                              then [app_SetFocus_messageInput] else [])
                                           @ [go_UpdateRead_and_selectGuild channel],
                                           w5))))))"

subsection \<open>The removal of a guild (lines 1690 to 1720)\<close>

text \<open>The function literal queued for the UI thread (lines 1705 to 1717).\<close>

definition guildRemoveUpdate :: "string \<Rightarrow> Window \<Rightarrow> effect list \<times> Window" where
  "guildRemoveUpdate guildID w =
     (let ofGuild =
            (case selectedChannel w of
               None \<Rightarrow> False
             | Some selected \<Rightarrow> c_GuildID (channelAt w selected) = guildID);
          w' = (if ofGuild
                then w\<lparr>selectedChannel := None, selectedChannelNode := None\<rparr>
                else w)
      in ((if ofGuild then [chatView_ClearViewAndCache] else [])
          @ [channelTree_Clear, userList_Clear, guildList_RemoveGuild guildID],
          w'\<lparr>selectedGuildNode := None, selectedGuild := None\<rparr>))"

text \<open>
  One round of the loop over \<^verbatim>\<open>guildRemoveChannel\<close> (lines 1692 to 1718), for the id of
  the guild that was removed. \<^verbatim>\<open>GetReference() == guildRemove.ID\<close> holds when the node
  refers to that string.
\<close>

definition handleGuildRemove :: "string \<Rightarrow> Window \<Rightarrow> effect list \<times> Window" where
  "handleGuildRemove guildRemoveID w =
     (case selectedGuildNode w of
        None \<Rightarrow> ([], w)
      | Some selectedNode \<Rightarrow>
          (let w' =
                 (case previousGuildNode w of
                    None \<Rightarrow> w
                  | Some previousNode \<Rightarrow>
                      if nodeReference w previousNode = Some guildRemoveID
                      then w\<lparr>previousGuildNode := None, previousGuild := None,
                             previousChannelNode := None, previousChannel := None\<rparr>
                      else w)
           in if nodeReference w' selectedNode = Some guildRemoveID
              then ([QueueUpdateDraw_guildRemoveUpdate guildRemoveID], w')
              else ([], w')))"

text \<open>The event is processed when the round is over and the UI thread has run what the
  round queued.\<close>

definition processGuildRemove :: "string \<Rightarrow> Window \<Rightarrow> effect list \<times> Window" where
  "processGuildRemove guildRemoveID w =
     (case handleGuildRemove guildRemoveID w of
        (queued, w') \<Rightarrow>
          if QueueUpdateDraw_guildRemoveUpdate guildRemoveID \<in> set queued
          then guildRemoveUpdate guildRemoveID w'
          else ([], w'))"

section \<open>Message events\<close>

subsection \<open>The activity of the user\<close>

text \<open>
  Times are in nanoseconds, as \<^verbatim>\<open>time.Duration\<close> has them; \<^verbatim>\<open>userInactiveTime\<close> is ten
  seconds (line 36).
\<close>

definition second :: nat where
  "second = 1000000000"

definition userInactiveTime :: nat where
  "userInactiveTime = 10 * second"

text \<open>
  The goroutine of lines 107 to 112 waits for \<^verbatim>\<open>userActiveTimer\<close> and clears \<^verbatim>\<open>userActive\<close>
  each time it fires; the timer is created at line 104 and fires when its time has come.
  At the time \<open>now\<close> the goroutine has done this if the time of the timer is not later than
  \<open>now\<close>.
\<close>

definition userActiveTimer_goroutine :: "nat \<Rightarrow> Window \<Rightarrow> Window" where
  "userActiveTimer_goroutine now w =
     (case userActiveTimer w of
        None \<Rightarrow> w
      | Some fires \<Rightarrow>
          if fires \<le> now then w\<lparr>userActive := False, userActiveTimer := None\<rparr> else w)"

text \<open>\<^verbatim>\<open>Reset\<close> of the timer, called at the time \<open>now\<close>.\<close>

definition userActiveTimer_Reset :: "nat \<Rightarrow> nat \<Rightarrow> Window \<Rightarrow> Window" where
  "userActiveTimer_Reset now duration w = w\<lparr>userActiveTimer := Some (now + duration)\<rparr>"

text \<open>
  The head of \<^verbatim>\<open>handleGlobalShortcuts\<close> (lines 1893 to 1910), which every key event of
  the application passes through, called at the time \<open>now\<close>. The shortcut that ends the
  application returns \<^verbatim>\<open>nil\<close> at line 1897, and a key pressed while something else than
  the main layout is shown returns the event at line 1902, both before the user is marked
  as active; lines 1905 and 1906 mark the user as active and reset the timer; with a
  dialog open the event is returned at line 1909. Otherwise the function goes on at line
  1912 with the shortcuts of the main layout (\<open>Dispatches\<close>; lines 1912 to 2050 are not
  followed here, and no line of them assigns \<^verbatim>\<open>userActive\<close> or \<^verbatim>\<open>userActiveTimer\<close>).
\<close>

datatype handled = ReturnsNil | ReturnsEvent | Dispatches

definition handleGlobalShortcuts ::
    "Env \<Rightarrow> nat \<Rightarrow> EventKey \<Rightarrow> Window \<Rightarrow> handled \<times> effect list \<times> Window" where
  "handleGlobalShortcuts env now event w =
     (if ExitApplication_Equals env event then
        (ReturnsNil, [doRestart_send False, app_Stop], w)
      else if currentContainer w \<noteq> rootContainer then (ReturnsEvent, [], w)
      else
        (let w1 = userActiveTimer_Reset now userInactiveTime (w\<lparr>userActive := True\<rparr>)
         in if dialogReplacement_IsVisible w1 then (ReturnsEvent, [], w1)
            else (Dispatches, [], w1)))"

text \<open>
  The mouse handler of the message input (lines 1410 to 1418), for the mask of the buttons
  of the event: the first button gives the focus to the input. Like the other seven
  handlers of \<^verbatim>\<open>registerMouseFocusListeners\<close> (lines 1357 to 1443), which set the focus or
  scroll, it writes no field of the window.
\<close>

definition Button1 :: nat where
  "Button1 = 1"

definition messageInput_MouseHandler :: "nat \<Rightarrow> Window \<Rightarrow> bool \<times> effect list \<times> Window" where
  "messageInput_MouseHandler buttons w =
     (if buttons = Button1 then (True, [app_SetFocus_messageInput], w)
      else (False, [], w))"

subsection \<open>A new message (lines 1479 to 1591)\<close>

text \<open>The loop over the nodes of the guild list (lines 1502 to 1509).\<close>

fun markGuildOfChannel :: "Env \<Rightarrow> string \<Rightarrow> ref list \<Rightarrow> Window \<Rightarrow> effect list" where
  "markGuildOfChannel env guildID [] w = []"
| "markGuildOfChannel env guildID (guildNode # guildNodes) w =
     (if nodeReference w guildNode = Some guildID then
        (case updateServerReadStatus env guildID (Some guildNode) False of
           Some coloured \<Rightarrow> [QueueUpdateDraw coloured]
         | None \<Rightarrow> [])
      else markGuildOfChannel env guildID guildNodes w)"

text \<open>The names of the recipients of a group without a name (lines 1547 to 1553).\<close>

fun appendRecipients :: "string \<Rightarrow> User list \<Rightarrow> string" where
  "appendRecipients notificationLocation [] = notificationLocation"
| "appendRecipients notificationLocation (recipient # recipients) =
     appendRecipients (notificationLocation @ '', '' @ u_Username recipient) recipients"

definition recipientNames :: "User list \<Rightarrow> string" where
  "recipientNames recipients =
     (case recipients of
        [] \<Rightarrow> []
      | recipient # others \<Rightarrow> appendRecipients (u_Username recipient) others)"

definition notificationLocation :: "Window \<Rightarrow> Channel \<Rightarrow> Message \<Rightarrow> string" where
  "notificationLocation w channel message =
     (if c_Type channel = ChannelTypeDM then u_Username (msg_Author message)
      else if c_Type channel = ChannelTypeGroupDM then
        u_Username (msg_Author message) @ '' - ''
        @ (if c_Name channel = [] then recipientNames (c_Recipients channel)
           else c_Name channel)
      else if c_Type channel = ChannelTypeGuildText then
        (case State_Guild w (msg_GuildID message) of
           Some guild \<Rightarrow>
             g_Name guild @ '' - '' @ c_Name channel @ '' - '' @ u_Username (msg_Author message)
         | None \<Rightarrow> u_Username (msg_Author message) @ '' - '' @ c_Name channel)
      else [])"

text \<open>The desktop notification (lines 1536 to 1571).\<close>

definition notify :: "Env \<Rightarrow> Window \<Rightarrow> Channel \<Rightarrow> Message \<Rightarrow> bool \<Rightarrow> effect list" where
  "notify env w channel message mentionsCurrentUser =
     (if \<not> userActive w \<and> DesktopNotifications env then
        (if mentionsCurrentUser
            \<or> c_Type channel = ChannelTypeDM \<or> c_Type channel = ChannelTypeGroupDM then
           (let title = ''Cordless - '' @ notificationLocation w channel message;
                body = ContentWithMentionsReplaced env message
            in beeep_Notify title body
               # (case beeep_Notify_error env title body of
                    Some notifyError \<Rightarrow> [log_Printf notifyError]
                  | None \<Rightarrow> []))
         else [])
      else [])"

text \<open>The marks in the lists (lines 1573 to 1589).\<close>

definition markUnread :: "Env \<Rightarrow> ref \<Rightarrow> Channel \<Rightarrow> bool \<Rightarrow> effect list" where
  "markUnread env channelRef channel mentionsCurrentUser =
     (if c_Type channel = ChannelTypeDM \<or> c_Type channel = ChannelTypeGroupDM then
        (if \<not> IsChannelMuted env channel
         then [QueueUpdateDraw [privateList_MarkChannelAsUnread channelRef]] else [])
      else if c_Type channel = ChannelTypeGuildText then
        (if mentionsCurrentUser
         then [QueueUpdateDraw [channelTree_MarkChannelAsMentioned (c_ID channel)]]
         else if \<not> IsChannelMuted env channel
         then [QueueUpdateDraw [channelTree_MarkChannelAsUnread (c_ID channel)]]
         else [])
      else [])"

text \<open>Line 1515 writes the id of the message into the cached channel.\<close>

definition setLastMessageID :: "ref \<Rightarrow> string \<Rightarrow> Window \<Rightarrow> Window" where
  "setLastMessageID channelRef messageID w =
     w\<lparr>channelAt := (channelAt w)
          (channelRef := (channelAt w channelRef)\<lparr>c_LastMessageID := messageID\<rparr>)\<rparr>"

text \<open>One round of the loop over \<^verbatim>\<open>input\<close>, for the message that arrived.\<close>

definition handleMessageCreate :: "Env \<Rightarrow> ref \<Rightarrow> Window \<Rightarrow> effect list \<times> Window" where
  "handleMessageCreate env messageRef w0 =
     (let w1 = State_MessageAdd env messageRef w0;
          message = messageAt w1 messageRef
      in case State_Channel w1 (msg_ChannelID message) of
           None \<Rightarrow> ([], w1)
         | Some channelRef \<Rightarrow>
             (let isOpen =
                    (case selectedChannel w1 of
                       None \<Rightarrow> False
                     | Some selected \<Rightarrow> msg_ChannelID message = c_ID (channelAt w1 selected));
                  shown =
                    (if isOpen then
                       (if u_ID (msg_Author message) \<noteq> u_ID (State_User w1)
                        then [readstate_UpdateReadBuffered channelRef (msg_ID message)]
                        else [])
                       @ [QueueUpdateDrawSynchronized [chatView_AddMessage messageRef]]
                     else []);
                  guildMarked =
                    (if c_Type (channelAt w1 channelRef) = ChannelTypeGuildText
                        \<and> (case selectedGuild w1 of
                              None \<Rightarrow> True
                            | Some guild \<Rightarrow> g_ID guild \<noteq> c_GuildID (channelAt w1 channelRef))
                     then markGuildOfChannel env (c_GuildID (channelAt w1 channelRef))
                            (guildList_Children w1) w1
                     else []);
                  w2 = setLastMessageID channelRef (msg_ID message) w1;
                  channel = channelAt w2 channelRef;
                  reordered =
                    (if c_Type channel = ChannelTypeDM \<or> c_Type channel = ChannelTypeGroupDM then
                       (if leftArea_CurrentPage w2 = privatePageName
                        then [QueueUpdateDraw [privateList_ReorderChannelList]]
                        else [privateList_ReorderChannelList])
                     else [])
              in if u_ID (msg_Author message) = u_ID (State_User w2) then
                   (shown @ guildMarked @ reordered
                    @ [readstate_UpdateReadLocal (msg_ChannelID message) (msg_ID message)], w2)
                 else if \<not> isOpen then
                   (let mentionsCurrentUser = MentionsCurrentUserExplicitly env w2 message
                    in (shown @ guildMarked @ reordered
                        @ notify env w2 channel message mentionsCurrentUser
                        @ markUnread env channelRef channel mentionsCurrentUser, w2))
                 else (shown @ guildMarked @ reordered, w2)))"

subsection \<open>An edited message (lines 1457 to 1462 and 1628 to 1651)\<close>

text \<open>The handler of \<^verbatim>\<open>MessageUpdate\<close> events passes the message on to the worker, unless
  it has no content.\<close>

definition onMessageUpdate :: "Window \<Rightarrow> ref \<Rightarrow> effect list" where
  "onMessageUpdate w m = (if msg_Content (messageAt w m) \<noteq> [] then [edit_send m] else [])"

text \<open>The loop over \<^verbatim>\<open>window.chatView.data\<close> (lines 1634 to 1647): the first message with
  the id of the edited one takes four of its fields, and the loop ends.\<close>

fun updateInView :: "ref \<Rightarrow> ref list \<Rightarrow> Window \<Rightarrow> effect list \<times> Window" where
  "updateInView edited [] w = ([], w)"
| "updateInView edited (message # messages) w =
     (if msg_ID (messageAt w message) = msg_ID (messageAt w edited) then
        ([QueueUpdateDrawSynchronized [chatView_UpdateMessage message]],
         w\<lparr>messageAt := (messageAt w)
              (message := (messageAt w message)
                 \<lparr>msg_Content := msg_Content (messageAt w edited),
                  msg_Mentions := msg_Mentions (messageAt w edited),
                  msg_MentionRoles := msg_MentionRoles (messageAt w edited),
                  msg_MentionEveryone := msg_MentionEveryone (messageAt w edited)\<rparr>)\<rparr>)
      else updateInView edited messages w)"

text \<open>One round of the loop over \<^verbatim>\<open>edit\<close>.\<close>

definition handleMessageEdit :: "Env \<Rightarrow> ref \<Rightarrow> Window \<Rightarrow> effect list \<times> Window" where
  "handleMessageEdit env edited w0 =
     (let w = State_MessageAdd env edited w0
      in case selectedChannel w of
           None \<Rightarrow> ([], w)
         | Some selected \<Rightarrow>
             if c_ID (channelAt w selected) = msg_ChannelID (messageAt w edited)
             then updateInView edited (chatView_data w) w
             else ([], w))"

section \<open>Notions used in the statements\<close>

text \<open>A text that consists of white space only: a sequence of the encodings that
  \<^verbatim>\<open>strings.TrimSpace\<close> removes.\<close>

inductive onlyWhiteSpace :: "string \<Rightarrow> bool" where
  empty: "onlyWhiteSpace []"
| space: "sp \<in> set whiteSpace \<Longrightarrow> onlyWhiteSpace s \<Longrightarrow> onlyWhiteSpace (sp @ s)"

text \<open>
  A guild, and the state cache, without the animated emojis: what is left when every
  animated emoji is taken out of every emoji list.
\<close>

definition withoutAnimated :: "Guild \<Rightarrow> Guild" where
  "withoutAnimated guild =
     guild\<lparr>g_Emojis := filter (\<lambda>emoji. \<not> e_Animated emoji) (g_Emojis guild)\<rparr>"

definition withoutAnimatedEmojis :: "Window \<Rightarrow> Window" where
  "withoutAnimatedEmojis w = w\<lparr>State_Guilds := map withoutAnimated (State_Guilds w)\<rparr>"

text \<open>The first emoji of a name in a list of guilds, in the order of the guilds and of
  their emoji lists.\<close>

definition firstEmojiNamed :: "Env \<Rightarrow> string \<Rightarrow> Guild list \<Rightarrow> Emoji option" where
  "firstEmojiNamed env emojiSequence guilds =
     find (\<lambda>emoji. ToLower env (e_Name emoji) = emojiSequence) (concat (map g_Emojis guilds))"

text \<open>A message with the content, the mentions, the mentioned roles and the mention of
  everyone of an edited one.\<close>

definition merged :: "Message \<Rightarrow> Message \<Rightarrow> Message" where
  "merged message edited =
     message\<lparr>msg_Content := msg_Content edited,
             msg_Mentions := msg_Mentions edited,
             msg_MentionRoles := msg_MentionRoles edited,
             msg_MentionEveryone := msg_MentionEveryone edited\<rparr>"

section \<open>Example states\<close>

text \<open>
  A small world for the concrete instances below: the local user and a second user, two
  guilds that both have an emoji named \<open>foo\<close>, a direct chat (channel 10) and a text
  channel in each guild (channels 11 and 12), two nodes of the guild list (nodes 20 and
  21) and four messages (30 to 33). The environment lowers ASCII letters, has no script and no code
  blocks, a service that answers every REST call with an error and a cache that keeps no
  messages. The window is the one that \<^verbatim>\<open>NewWindow\<close> has just built: the main layout is
  shown, no key was pressed yet, and the timer of line 104 has ten seconds to go. The
  application is left with \<open>Ctrl-C\<close>.
\<close>

definition asciiToLower :: "string \<Rightarrow> string" where
  "asciiToLower s =
     map (\<lambda>c. case map_of (zip ''ABCDEFGHIJKLMNOPQRSTUVWXYZ'' ''abcdefghijklmnopqrstuvwxyz'') c of
                 Some l \<Rightarrow> l
               | None \<Rightarrow> c) s"

definition localUser :: User where
  "localUser = \<lparr>u_ID = ''1'', u_Username = ''me'', u_Discriminator = ''0001'',
     u_PremiumType = UserPremiumTypeNone\<rparr>"

definition alice :: User where
  "alice = \<lparr>u_ID = ''2'', u_Username = ''alice'', u_Discriminator = ''0002'',
     u_PremiumType = UserPremiumTypeNone\<rparr>"

definition guildA :: Guild where
  "guildA = \<lparr>g_ID = ''100'', g_Name = ''A'',
     g_Emojis = [\<lparr>e_ID = ''501'', e_Name = ''wave'', e_Roles = [], e_Animated = True\<rparr>,
                 \<lparr>e_ID = ''502'', e_Name = ''foo'', e_Roles = [], e_Animated = False\<rparr>],
     g_Channels = [11], g_Members = []\<rparr>"

definition guildB :: Guild where
  "guildB = \<lparr>g_ID = ''200'', g_Name = ''B'',
     g_Emojis = [\<lparr>e_ID = ''601'', e_Name = ''foo'', e_Roles = [], e_Animated = False\<rparr>],
     g_Channels = [12], g_Members = []\<rparr>"

definition exampleChannels :: "ref \<Rightarrow> Channel" where
  "exampleChannels r =
     (if r = 11 then
        \<lparr>c_ID = ''11'', c_GuildID = ''100'', c_Name = ''general'', c_Topic = [],
         c_Type = ChannelTypeGuildText, c_LastMessageID = [], c_Recipients = [],
         c_Messages = []\<rparr>
      else if r = 12 then
        \<lparr>c_ID = ''12'', c_GuildID = ''200'', c_Name = ''talk'', c_Topic = [],
         c_Type = ChannelTypeGuildText, c_LastMessageID = [], c_Recipients = [],
         c_Messages = []\<rparr>
      else
        \<lparr>c_ID = ''10'', c_GuildID = [], c_Name = [], c_Topic = [],
         c_Type = ChannelTypeDM, c_LastMessageID = [], c_Recipients = [alice],
         c_Messages = []\<rparr>)"

definition exampleMessages :: "ref \<Rightarrow> Message" where
  "exampleMessages r =
     (if r = 31 then
        \<lparr>msg_ID = ''901'', msg_ChannelID = ''11'', msg_GuildID = ''100'', msg_Content = ''old'',
         msg_Author = alice, msg_Mentions = [], msg_MentionRoles = [],
         msg_MentionEveryone = False\<rparr>
      else if r = 32 then
        \<lparr>msg_ID = ''901'', msg_ChannelID = ''11'', msg_GuildID = ''100'', msg_Content = ''new'',
         msg_Author = alice, msg_Mentions = [localUser], msg_MentionRoles = [''7''],
         msg_MentionEveryone = True\<rparr>
      else if r = 33 then
        \<lparr>msg_ID = ''902'', msg_ChannelID = ''11'', msg_GuildID = ''100'', msg_Content = ''other'',
         msg_Author = alice, msg_Mentions = [], msg_MentionRoles = [],
         msg_MentionEveryone = False\<rparr>
      else
        \<lparr>msg_ID = ''900'', msg_ChannelID = ''10'', msg_GuildID = [], msg_Content = ''hello'',
         msg_Author = alice, msg_Mentions = [], msg_MentionRoles = [],
         msg_MentionEveryone = False\<rparr>)"

definition exampleWindow :: Window where
  "exampleWindow = \<lparr>
     editingMessageID = None,
     selectedGuildNode = None, previousGuildNode = None,
     selectedGuild = None, previousGuild = None,
     selectedChannelNode = None, previousChannelNode = None,
     selectedChannel = None, previousChannel = None,
     userActive = False,
     userActiveTimer = Some userInactiveTime,
     currentContainer = rootContainer,
     dialogReplacement_IsVisible = False,
     State_User = localUser,
     State_Guilds = [guildA, guildB],
     State_channelMap = [''10'' \<mapsto> 10, ''11'' \<mapsto> 11, ''12'' \<mapsto> 12],
     channelAt = exampleChannels,
     messageAt = exampleMessages,
     nodeReference = (\<lambda>r. if r = 20 then Some ''100'' else if r = 21 then Some ''200'' else None),
     leftArea_CurrentPage = ''Guilds'',
     channelTree_CurrentNode = Some 22,
     guildList_Children = [20, 21],
     chatView_data = [],
     restCalls = 0,
     logged = []\<rparr>"

definition exampleEnv :: Env where
  "exampleEnv = \<lparr>
     ToLower = asciiToLower,
     codeBlockRegex_pieces = (\<lambda>s. [(False, s)]),
     OnMessageSend = (\<lambda>s. s),
     discordemojimap_Replace = (\<lambda>s. s),
     GuildMember = (\<lambda>n guildID userID. Inl ''HTTP 404''),
     ChannelMessages = (\<lambda>n channelID. Inl ''HTTP 404''),
     cache_MessageAdd = (\<lambda>m stores. stores),
     SortMessagesByTimestamp = (\<lambda>store messages. messages),
     GetPrivateChannelName = (\<lambda>channel. c_Name channel),
     HasReadMessagesPermission = (\<lambda>channelID w. True),
     MentionsCurrentUserExplicitly = (\<lambda>w m. list_ex (\<lambda>u. u_ID u = u_ID (State_User w)) (msg_Mentions m)),
     ContentWithMentionsReplaced = (\<lambda>m. msg_Content m),
     HasGuildBeenRead = (\<lambda>guildID. True),
     IsChannelMuted = (\<lambda>c. False),
     beeep_Notify_error = (\<lambda>title body. None),
     DesktopNotifications = True,
     FocusMessageInputAfterChannelSelection = True,
     privateList_onChannelSelect = (\<lambda>node channelID w. ([], w)),
     guildList_onGuildSelect = (\<lambda>node guildID w. ([], w)),
     channelTree_onChannelSelect = (\<lambda>channelID w. ([], w)),
     ExitApplication_Equals =
       (\<lambda>event. ek_Key event = 3 \<and> ek_Rune event = 3 \<and> ek_Modifiers event = 2)\<rparr>"

text \<open>An environment whose script replaces every text by 2001 letters.\<close>

definition paddingEnv :: Env where
  "paddingEnv = exampleEnv\<lparr>OnMessageSend := (\<lambda>s. replicate 2001 CHR ''a'')\<rparr>"

text \<open>A user with nitro.\<close>

definition nitroWindow :: Window where
  "nitroWindow =
     exampleWindow\<lparr>State_User := localUser\<lparr>u_PremiumType := UserPremiumTypeNitro\<rparr>\<rparr>"

text \<open>The channel shown is also the previous one.\<close>

definition revisitWindow :: Window where
  "revisitWindow = exampleWindow\<lparr>selectedChannel := Some 11, previousChannel := Some 11\<rparr>"

text \<open>
  The direct chat is shown after the channel \<open>general\<close> of guild \<open>A\<close> was: no guild is
  selected, and the previous channel and guild are those of \<open>A\<close>.
\<close>

definition backWindow :: Window where
  "backWindow = exampleWindow\<lparr>
     selectedChannel := Some 10,
     previousChannel := Some 11, previousChannelNode := Some 22,
     previousGuild := Some guildA, previousGuildNode := Some 20,
     leftArea_CurrentPage := ''Private''\<rparr>"

text \<open>The same, when the cache holds the channel \<open>general\<close> no more.\<close>

definition staleWindow :: Window where
  "staleWindow = backWindow\<lparr>State_channelMap := [''10'' \<mapsto> 10]\<rparr>"

text \<open>The same as \<open>backWindow\<close>, when the cache holds guild \<open>A\<close> no more.\<close>

definition staleGuildWindow :: Window where
  "staleGuildWindow = backWindow\<lparr>State_Guilds := [guildB]\<rparr>"




text \<open>The channel \<open>general\<close> is shown, with two of its messages in the view.\<close>

definition viewWindow :: Window where
  "viewWindow = exampleWindow\<lparr>selectedChannel := Some 11, chatView_data := [33, 31]\<rparr>"

text \<open>
  The direct chat is shown, and the cache of the session holds message 31 (id 901) of the
  channel \<open>general\<close>, which is not shown.
\<close>

definition closedWindow :: Window where
  "closedWindow = exampleWindow\<lparr>
     selectedChannel := Some 10,
     channelAt := exampleChannels(11 := (exampleChannels 11)\<lparr>c_Messages := [31]\<rparr>)\<rparr>"

section \<open>Properties of the composition of a message\<close>

subsection \<open>Sending\<close>

lemma anyStarLazy_suffix: "r \<in> set (anyStarLazy s) \<Longrightarrow> suffix r s"
  by (induction s) (auto split: if_splits simp: suffix_Cons)

lemma rmatch_suffix: "(b', r) \<in> set (rmatch e b s) \<Longrightarrow> suffix r s"
proof (induction e arbitrary: b s b' r)
  case (Cat e1 e2)
  from Cat.prems obtain b1 s1 where
    "(b1, s1) \<in> set (rmatch e1 b s)" and "(b', r) \<in> set (rmatch e2 b1 s1)"
    by auto
  then have "suffix s1 s" and "suffix r s1"
    using Cat.IH by blast+
  then show ?case by (rule_tac suffix_order.trans)
next
  case AnyPlusLazy
  then show ?case
    by (auto split: list.splits if_splits simp: suffix_Cons dest: anyStarLazy_suffix)
qed (auto split: list.splits if_splits simp: suffix_Cons)

lemma emojiRegex_needs_colon:
  assumes "CHR '':'' \<notin> set s"
  shows "matchAt emojiRegex b s = None"
proof (rule ccontr)
  let ?tail = "Cat (Opt (Lit CHR ''!'')) (Cat AnyPlusLazy (Lit CHR '':''))"
  let ?head = "Alt BeginText (NotLit CHR ''<'')"
  assume "matchAt emojiRegex b s \<noteq> None"
  then obtain b' rest where "(b', rest) \<in> set (rmatch emojiRegex b s)"
    by (auto simp: matchAt_def split: list.splits)
  then have "(b', rest) \<in> set (rmatch (Cat (Opt (Lit CHR ''m'')) (Cat ?head (Cat (Lit CHR '':'') ?tail))) b s)"
    by (simp only: emojiRegex_def)
  then obtain b1 s1 where
    s1: "(b1, s1) \<in> set (rmatch (Opt (Lit CHR ''m'')) b s)" and
    r1: "(b', rest) \<in> set (rmatch (Cat ?head (Cat (Lit CHR '':'') ?tail)) b1 s1)"
    using rmatch_Cat [of b' rest "Opt (Lit CHR ''m'')" "Cat ?head (Cat (Lit CHR '':'') ?tail)" b s] by blast
  from r1 obtain b2 s2 where
    s2: "(b2, s2) \<in> set (rmatch ?head b1 s1)" and
    r2: "(b', rest) \<in> set (rmatch (Cat (Lit CHR '':'') ?tail) b2 s2)"
    using rmatch_Cat [of b' rest ?head "Cat (Lit CHR '':'') ?tail" b1 s1] by blast
  from r2 obtain b3 s3 where "(b3, s3) \<in> set (rmatch (Lit CHR '':'') b2 s2)"
    using rmatch_Cat [of b' rest "Lit CHR '':''" ?tail b2 s2] by blast
  then have "CHR '':'' \<in> set s2"
    by (auto split: list.splits if_splits)
  moreover from s2 s1 have "suffix s2 s"
    by (blast intro: suffix_order.trans dest: rmatch_suffix)
  ultimately have "CHR '':'' \<in> set s"
    using set_mono_suffix by blast
  with assms show False by simp
qed

lemma ReplaceAllStringFunc_no_colon:
  "CHR '':'' \<notin> set s \<Longrightarrow> emojiRegex_ReplaceAllStringFunc repl b s w = (s, w)"
  by (induction s arbitrary: b) (simp_all add: emojiRegex_needs_colon)

lemma ReplaceAll_absent: "c \<notin> set s \<Longrightarrow> ReplaceAll s (c # cs) new = s"
  by (induction s) (auto)

lemma whiteSpace_prefix_free:
  "a \<in> set whiteSpace \<Longrightarrow> b \<in> set whiteSpace \<Longrightarrow> prefix a b \<Longrightarrow> a = b"
  unfolding whiteSpace_def by (elim disjE | simp)+

lemma whiteSpace_same_prefix:
  assumes "a \<in> set whiteSpace" "b \<in> set whiteSpace" "prefix a s" "prefix b s"
  shows "a = b"
proof -
  from assms(3,4) have "prefix a b \<or> prefix b a"
    by (rule prefix_same_cases[THEN disjE]) auto
  with assms(1,2) show ?thesis
    by (auto dest: whiteSpace_prefix_free)
qed

lemma TrimLeftSpace_onlyWhiteSpace: "onlyWhiteSpace s \<Longrightarrow> TrimLeftSpace s = []"
proof (induction rule: onlyWhiteSpace.induct)
  case empty
  show ?case by (simp add: TrimLeftSpace.simps whiteSpace_def)
next
  case (space sp s)
  from space.hyps(1) obtain sp' where f: "find (\<lambda>x. prefix x (sp @ s)) whiteSpace = Some sp'"
    by (cases "find (\<lambda>x. prefix x (sp @ s)) whiteSpace") (auto simp: find_None_iff)
  then have "sp' \<in> set whiteSpace" "prefix sp' (sp @ s)"
    by (auto simp: find_Some_iff)
  with space.hyps(1) have "sp' = sp"
    by (auto intro: whiteSpace_same_prefix)
  with f space.IH show ?case
    by (subst TrimLeftSpace.simps) simp
qed

lemma TrimSpace_onlyWhiteSpace: "onlyWhiteSpace s \<Longrightarrow> TrimSpace s = []"
  by (simp add: TrimSpace_def TrimLeftSpace_onlyWhiteSpace TrimRightSpace.simps whiteSpace_def)

text \<open>
  Claim C10. For a target channel that is not \<^verbatim>\<open>nil\<close> and an input that is not empty but
  consists of white space only, \<^verbatim>\<open>TrySendMessage\<close> queues the clearing of the message
  input and does nothing else: nothing is sent, no dialog is shown, and the state is the
  one before the call, whatever the environment is, so \<^verbatim>\<open>prepareMessage\<close> had no part in it.
\<close>

theorem TrySendMessage_blank:
  assumes "message \<noteq> []" and "onlyWhiteSpace message"
  shows "TrySendMessage env (Some targetChannel) message w =
           ([QueueUpdateDraw [messageInput_SetText []]], w)"
  using assms by (simp add: TrySendMessage_def TrimSpace_onlyWhiteSpace)

theorem TrySendMessage_blank_witness:
  "'' '' @ [CHR 0x09, CHR 0xC2, CHR 0xA0] \<noteq> [] \<and> onlyWhiteSpace ('' '' @ [CHR 0x09, CHR 0xC2, CHR 0xA0])
   \<and> TrySendMessage exampleEnv (Some 10) ('' '' @ [CHR 0x09, CHR 0xC2, CHR 0xA0]) exampleWindow
        = ([QueueUpdateDraw [messageInput_SetText []]], exampleWindow)"
proof -
  have "onlyWhiteSpace ([CHR 0x20] @ [CHR 0x09] @ [CHR 0xC2, CHR 0xA0] @ [])"
    by (intro onlyWhiteSpace.intros) (simp_all add: whiteSpace_def)
  then have ws: "onlyWhiteSpace ('' '' @ [CHR 0x09, CHR 0xC2, CHR 0xA0])"
    by simp
  with TrySendMessage_blank [of "'' '' @ [CHR 0x09, CHR 0xC2, CHR 0xA0]" exampleEnv 10 exampleWindow]
  show ?thesis by simp
qed

lemma prepareMessage_padding:
  "prepareMessage paddingEnv 10 s exampleWindow = (replicate 2001 CHR ''a'', exampleWindow)"
  by (simp add: prepareMessage_def paddingEnv_def exampleEnv_def exampleWindow_def
        exampleChannels_def escapeCodeBlocks_def replaceCustomEmojiSequences_def localUser_def
        alice_def ReplaceAllStringFunc_no_colon ReplaceAll_absent)

text \<open>
  Claim C1. \<^verbatim>\<open>TrySendMessage\<close> prepares a text only for an input that is not empty after
  trimming (lines 976 to 990 return before line 992 otherwise). When the text that
  \<^verbatim>\<open>prepareMessage\<close> makes of the trimmed input is longer than 2000 bytes, \<^verbatim>\<open>TrySendMessage\<close>
  called with a channel does nothing but queue the error dialog, and its calls contain no
  \<^verbatim>\<open>editMessage\<close> and no \<^verbatim>\<open>sendMessage\<close>: the text is neither cut nor sent.
\<close>

theorem TrySendMessage_too_long:
  assumes "prepareMessage env targetChannel (TrimSpace message) w = (prepared, w')"
    and "2000 < length prepared"
  shows "(TrimSpace message \<noteq> [] \<longrightarrow>
            TrySendMessage env (Some targetChannel) message w =
              ([QueueUpdateDraw
                  [ShowErrorDialog ''Messages must be 2000 characters or less to send'']], w'))
       \<and> (\<forall>channelID messageID text.
            editMessage channelID messageID text
              \<notin> set (fst (TrySendMessage env (Some targetChannel) message w))
          \<and> go_sendMessage channelID text
              \<notin> set (fst (TrySendMessage env (Some targetChannel) message w)))"
  using assms
  by (auto simp: TrySendMessage_def TrimSpace_onlyWhiteSpace onlyWhiteSpace.empty
        split: option.splits)

lemma TrimSpace_hi: "TrimSpace ''hi'' = ''hi''"
  by code_simp

theorem TrySendMessage_too_long_witness:
  "TrimSpace ''hi'' \<noteq> []
   \<and> prepareMessage paddingEnv 10 (TrimSpace ''hi'') exampleWindow
       = (replicate 2001 CHR ''a'', exampleWindow)
   \<and> 2000 < length (replicate 2001 CHR ''a'')
   \<and> TrySendMessage paddingEnv (Some 10) ''hi'' exampleWindow =
       ([QueueUpdateDraw [ShowErrorDialog ''Messages must be 2000 characters or less to send'']],
        exampleWindow)"
  using TrySendMessage_too_long [of paddingEnv 10 "''hi''" exampleWindow
      "replicate 2001 CHR ''a''" exampleWindow]
  by (simp add: prepareMessage_padding TrimSpace_hi)

subsection \<open>Custom emojis\<close>

lemma withoutAnimated_fields [simp]:
  "g_ID (withoutAnimated g) = g_ID g"
  "g_Members (withoutAnimated g) = g_Members g"
  "g_Emojis (withoutAnimated g) = filter (\<lambda>emoji. \<not> e_Animated emoji) (g_Emojis g)"
  "withoutAnimated (g\<lparr>g_Members := ms\<rparr>) = (withoutAnimated g)\<lparr>g_Members := ms\<rparr>"
  by (simp_all add: withoutAnimated_def)

lemma withoutAnimatedEmojis_fields [simp]:
  "State_User (withoutAnimatedEmojis w) = State_User w"
  "restCalls (withoutAnimatedEmojis w) = restCalls w"
  "logged (withoutAnimatedEmojis w) = logged w"
  "State_Guilds (withoutAnimatedEmojis w) = map withoutAnimated (State_Guilds w)"
  "(withoutAnimatedEmojis w)\<lparr>restCalls := n\<rparr> = withoutAnimatedEmojis (w\<lparr>restCalls := n\<rparr>)"
  "(withoutAnimatedEmojis w)\<lparr>logged := l\<rparr> = withoutAnimatedEmojis (w\<lparr>logged := l\<rparr>)"
  by (simp_all add: withoutAnimatedEmojis_def)

lemma find_guild_withoutAnimated:
  "find (\<lambda>g. g_ID g = guildID) (map withoutAnimated guilds)
     = map_option withoutAnimated (find (\<lambda>g. g_ID g = guildID) guilds)"
  by (induction guilds) auto

lemma State_Member_withoutAnimatedEmojis [simp]:
  "State_Member (withoutAnimatedEmojis w) guildID userID = State_Member w guildID userID"
  by (simp add: State_Member_def State_Guild_def find_guild_withoutAnimated
        split: option.splits)

lemma putMemberInGuild_withoutAnimated:
  "putMemberInGuild m (map withoutAnimated guilds) = map withoutAnimated (putMemberInGuild m guilds)"
  by (induction guilds) auto

lemma State_MemberAdd_withoutAnimatedEmojis [simp]:
  "State_MemberAdd m (withoutAnimatedEmojis w) = withoutAnimatedEmojis (State_MemberAdd m w)"
  by (simp add: State_MemberAdd_def withoutAnimatedEmojis_def putMemberInGuild_withoutAnimated)

lemma findMatchInEmojis_withoutAnimated:
  "findMatchInEmojis env guildID omitGWCheck emojiSequence
       (filter (\<lambda>emoji. \<not> e_Animated emoji) emojis) (withoutAnimatedEmojis w)
     = (case findMatchInEmojis env guildID omitGWCheck emojiSequence emojis w of
          (found, w') \<Rightarrow> (found, withoutAnimatedEmojis w'))"
proof (induction emojis arbitrary: w)
  case Nil
  show ?case by simp
next
  case (Cons emoji emojis)
  show ?case
  proof (cases "e_Animated emoji")
    case True
    then show ?thesis by (auto simp: Cons.IH)
  next
    case False
    show ?thesis
    proof (cases "State_Member w guildID (u_ID (State_User w))")
      case (Some selfMember)
      with False show ?thesis by (auto simp: Cons.IH)
    next
      case None
      show ?thesis
      proof (cases "GuildMember env (restCalls w) guildID (u_ID (State_User w))")
        case (Inl discordError)
        with False None show ?thesis by (auto simp: Cons.IH)
      next
        case (Inr fetched)
        with False None show ?thesis by (auto simp: Cons.IH)
      qed
    qed
  qed
qed

lemma findMatchInGuild_withoutAnimated:
  "findMatchInGuild env (withoutAnimated guild) omitGWCheck emojiSequence (withoutAnimatedEmojis w)
     = (case findMatchInGuild env guild omitGWCheck emojiSequence w of
          (found, w') \<Rightarrow> (found, withoutAnimatedEmojis w'))"
  by (simp add: findMatchInGuild_def findMatchInEmojis_withoutAnimated)

lemma globalMatchInGuilds_withoutAnimated:
  "globalMatchInGuilds env emojiSequence (map withoutAnimated guilds) (withoutAnimatedEmojis w)
     = (case globalMatchInGuilds env emojiSequence guilds w of
          (found, w') \<Rightarrow> (found, withoutAnimatedEmojis w'))"
proof (induction guilds arbitrary: w)
  case Nil
  show ?case by simp
next
  case (Cons guild guilds)
  obtain found w1 where f: "findMatchInGuild env guild False emojiSequence w = (found, w1)"
    by (cases "findMatchInGuild env guild False emojiSequence w") auto
  then show ?case
    using Cons.IH [of w1] by (simp add: findMatchInGuild_withoutAnimated)
qed

lemma defaultReplace_withoutAnimated:
  "defaultReplace env (map_option withoutAnimated channelGuild) match (withoutAnimatedEmojis w)
     = (case defaultReplace env channelGuild match w of
          (replaced, w') \<Rightarrow> (replaced, withoutAnimatedEmojis w'))"
proof -
  obtain localResult w1 where l:
    "(case channelGuild of
        None \<Rightarrow> ([], w)
      | Some guild \<Rightarrow> findMatchInGuild env guild True (emojiSequenceOf env match) w)
     = (localResult, w1)"
    by (cases "(case channelGuild of
        None \<Rightarrow> ([], w)
      | Some guild \<Rightarrow> findMatchInGuild env guild True (emojiSequenceOf env match) w)") auto
  then have l':
    "(case map_option withoutAnimated channelGuild of
        None \<Rightarrow> ([], withoutAnimatedEmojis w)
      | Some guild \<Rightarrow>
          findMatchInGuild env guild True (emojiSequenceOf env match) (withoutAnimatedEmojis w))
     = (localResult, withoutAnimatedEmojis w1)"
    by (cases channelGuild) (auto simp: findMatchInGuild_withoutAnimated)
  obtain emojiResult w2 where g:
    "globalMatchInGuilds env (emojiSequenceOf env match) (State_Guilds w1) w1 = (emojiResult, w2)"
    by (cases "globalMatchInGuilds env (emojiSequenceOf env match) (State_Guilds w1) w1") auto
  show ?thesis
    unfolding defaultReplace_def l l'
    using g globalMatchInGuilds_withoutAnimated [of env "emojiSequenceOf env match" "State_Guilds w1" w1]
    by simp
qed

lemma ReplaceAllStringFunc_related:
  assumes "\<And>match w. repl' match (f w) = (case repl match w of (replaced, w') \<Rightarrow> (replaced, f w'))"
  shows "emojiRegex_ReplaceAllStringFunc repl' b s (f w)
           = (case emojiRegex_ReplaceAllStringFunc repl b s w of (out, w') \<Rightarrow> (out, f w'))"
proof (induction s arbitrary: b w rule: length_induct)
  case (1 s)
  show ?case
  proof (cases s)
    case Nil
    then show ?thesis by simp
  next
    case (Cons c cs)
    show ?thesis
    proof (cases "matchAt emojiRegex b (c # cs)")
      case None
      from 1 [rule_format, of cs False w] Cons None show ?thesis
        by (simp split: prod.splits)
    next
      case (Some rest)
      then have shorter: "length rest < length s"
        using Cons by (auto dest: emojiRegex_consumes)
      obtain replaced w1 where r:
        "repl (take (length (c # cs) - length rest) (c # cs)) w = (replaced, w1)"
        by (cases "repl (take (length (c # cs) - length rest) (c # cs)) w") auto
      have r': "repl' (take (length (c # cs) - length rest) (c # cs)) (f w) = (replaced, f w1)"
        by (simp only: assms r prod.case)
      from 1 [rule_format, OF shorter, of False w1] Cons Some r r' show ?thesis
        by (simp split: prod.splits)
    qed
  qed
qed

lemma nitroMatchInEmojis_find:
  "nitroMatchInEmojis env emojiSequence emojis
     = map_option (\<lambda>emoji. if e_Animated emoji then animatedEmojiReference emoji
                            else emojiReference emoji)
         (find (\<lambda>emoji. ToLower env (e_Name emoji) = emojiSequence) emojis)"
  by (induction emojis) auto

lemma find_append:
  "find P (xs @ ys) = (case find P xs of Some x \<Rightarrow> Some x | None \<Rightarrow> find P ys)"
  by (induction xs) auto

lemma nitroMatchInGuilds_first:
  "nitroMatchInGuilds env emojiSequence guilds
     = map_option (\<lambda>emoji. if e_Animated emoji then animatedEmojiReference emoji
                            else emojiReference emoji)
         (firstEmojiNamed env emojiSequence guilds)"
  by (induction guilds)
     (auto simp: firstEmojiNamed_def nitroMatchInEmojis_find find_append split: option.splits)

text \<open>
  Claim C8. For a user without nitro, \<^verbatim>\<open>replaceCustomEmojiSequences\<close> gives the text, and
  leaves the cache in the state, that it gives when every animated emoji is taken out of
  the guild of the channel and of all guilds of the cache: no emoji code is ever resolved
  to an animated emoji. For a user with nitro or nitro classic every match is replaced by
  the callback of lines 1214 to 1230, which for the first emoji of that name in the
  guilds of the cache writes \<open><a:name:id>\<close> when the emoji is animated and \<open><:name:id>\<close>
  when it is not.
\<close>

theorem animated_only_with_nitro:
  "(u_PremiumType (State_User w) \<noteq> UserPremiumTypeNitroClassic
      \<and> u_PremiumType (State_User w) \<noteq> UserPremiumTypeNitro \<longrightarrow>
      replaceCustomEmojiSequences env (map_option withoutAnimated channelGuild) message
          (withoutAnimatedEmojis w)
        = (case replaceCustomEmojiSequences env channelGuild message w of
             (replaced, w') \<Rightarrow> (replaced, withoutAnimatedEmojis w')))
   \<and> (u_PremiumType (State_User w) = UserPremiumTypeNitroClassic
      \<or> u_PremiumType (State_User w) = UserPremiumTypeNitro \<longrightarrow>
      replaceCustomEmojiSequences env channelGuild message w
        = emojiRegex_ReplaceAllStringFunc (nitroReplace env) True message w
      \<and> (\<forall>match emoji.
            firstEmojiNamed env (emojiSequenceOf env match) (State_Guilds w) = Some emoji \<longrightarrow>
            nitroReplace env match w
              = (slice match 0 (firstDoubleColon match)
                   @ (if e_Animated emoji then animatedEmojiReference emoji
                      else emojiReference emoji), w)))"
proof -
  have "replaceCustomEmojiSequences env (map_option withoutAnimated channelGuild) message
          (withoutAnimatedEmojis w)
        = (case replaceCustomEmojiSequences env channelGuild message w of
             (replaced, w') \<Rightarrow> (replaced, withoutAnimatedEmojis w'))"
    if "u_PremiumType (State_User w) \<noteq> UserPremiumTypeNitroClassic"
      and "u_PremiumType (State_User w) \<noteq> UserPremiumTypeNitro"
    using that
      ReplaceAllStringFunc_related [of "defaultReplace env (map_option withoutAnimated channelGuild)"
        withoutAnimatedEmojis "defaultReplace env channelGuild" True message w,
        OF defaultReplace_withoutAnimated]
    by (simp add: replaceCustomEmojiSequences_def)
  moreover have "replaceCustomEmojiSequences env channelGuild message w
        = emojiRegex_ReplaceAllStringFunc (nitroReplace env) True message w"
    if "u_PremiumType (State_User w) = UserPremiumTypeNitroClassic
      \<or> u_PremiumType (State_User w) = UserPremiumTypeNitro"
    using that by (auto simp: replaceCustomEmojiSequences_def)
  moreover have "nitroReplace env match w
              = (slice match 0 (firstDoubleColon match)
                   @ (if e_Animated emoji then animatedEmojiReference emoji
                      else emojiReference emoji), w)"
    if "firstEmojiNamed env (emojiSequenceOf env match) (State_Guilds w) = Some emoji"
    for match emoji
    using that by (simp add: nitroReplace_def nitroMatchInGuilds_first)
  ultimately show ?thesis by blast
qed

lemma emojiReference_nonempty [simp]: "emojiReference emoji \<noteq> []"
  by (simp add: emojiReference_def)

lemma findMatchInEmojis_found:
  assumes "findMatchInEmojis env guildID omitGWCheck emojiSequence emojis w = (found, w')"
    and "found \<noteq> []"
  shows "\<exists>emoji \<in> set emojis. \<not> e_Animated emoji
           \<and> ToLower env (e_Name emoji) = emojiSequence \<and> found = emojiReference emoji"
  using assms
  by (induction emojis arbitrary: w)
     (auto split: if_splits option.splits sum.splits)

lemma State_Member_after_failure [simp]:
  "State_Member (w\<lparr>restCalls := n, logged := l\<rparr>) guildID userID = State_Member w guildID userID"
  by (simp add: State_Member_def State_Guild_def)

lemma findMatchInEmojis_eligible:
  assumes "emoji \<in> set emojis" and "\<not> e_Animated emoji"
    and "ToLower env (e_Name emoji) = emojiSequence"
    and "e_Roles emoji = [] \<or> State_Member w guildID (u_ID (State_User w)) \<noteq> None"
  shows "fst (findMatchInEmojis env guildID True emojiSequence emojis w) \<noteq> []"
  using assms
proof (induction emojis arbitrary: w)
  case Nil
  then show ?case by simp
next
  case (Cons e es)
  show ?case
  proof (cases "e = emoji")
    case True
    with Cons.prems show ?thesis
      by (auto split: option.splits sum.splits)
  next
    case False
    with Cons.prems have in_rest: "emoji \<in> set es" by simp
    have later: "fst (findMatchInEmojis env guildID True emojiSequence es w1) \<noteq> []"
      if "State_Member w1 guildID (u_ID (State_User w1)) = State_Member w guildID (u_ID (State_User w))"
      for w1
      using Cons.IH [OF in_rest Cons.prems(2,3), of w1] Cons.prems(4) that by simp
    show ?thesis
      using later [of w]
        later [of "w\<lparr>restCalls := Suc (restCalls w), logged := logged w @ [err]\<rparr>" for err]
      by (auto split: option.splits sum.splits)
  qed
qed

lemmas emoji_eval =
  replaceCustomEmojiSequences_def nitroReplace_def defaultReplace_def findMatchInGuild_def
  emojiSequenceOf_def firstDoubleColon_def IndexRune_def slice_def TrimPrefix_def HasPrefix_def
  emojiReference_def animatedEmojiReference_def matchAt_def emojiRegex_def
  exampleEnv_def exampleWindow_def nitroWindow_def localUser_def guildA_def guildB_def
  asciiToLower_def

lemma foo_nitro:
  "replaceCustomEmojiSequences exampleEnv (Some guildB) '':foo:'' nitroWindow
     = (''<:foo:502>'', nitroWindow)"
  by (simp add: emoji_eval)

lemma foo_plain:
  "replaceCustomEmojiSequences exampleEnv (Some guildB) '':foo:'' exampleWindow
     = (''<:foo:601>'', exampleWindow)"
  by (simp add: emoji_eval)

lemma wave_nitro:
  "replaceCustomEmojiSequences exampleEnv (Some guildA) ''hi :wave:'' nitroWindow
     = (''hi <a:wave:501>'', nitroWindow)"
  by (simp add: emoji_eval)

lemma wave_plain:
  "replaceCustomEmojiSequences exampleEnv (Some guildA) ''hi :wave:'' exampleWindow
     = (''hi :wave:'', exampleWindow)"
  by (simp add: emoji_eval)

text \<open>
  Claim C9, as amended. For a user without nitro the matches are replaced by the callback
  of lines 1233 to 1254, and whenever the guild of the channel has an emoji of the name
  that is not animated and either has no roles or finds the member of the local user in
  the cache, the code is replaced by the reference of an emoji of that guild, whatever
  emojis the other guilds have.
\<close>

theorem local_guild_emoji_first:
  assumes "u_PremiumType (State_User w) \<noteq> UserPremiumTypeNitroClassic"
    and "u_PremiumType (State_User w) \<noteq> UserPremiumTypeNitro"
    and "emoji \<in> set (g_Emojis guild)"
    and "\<not> e_Animated emoji"
    and "ToLower env (e_Name emoji) = emojiSequenceOf env match"
    and "e_Roles emoji = [] \<or> State_Member w (g_ID guild) (u_ID (State_User w)) \<noteq> None"
  shows "replaceCustomEmojiSequences env (Some guild) message w
           = emojiRegex_ReplaceAllStringFunc (defaultReplace env (Some guild)) True message w
       \<and> (\<exists>local \<in> set (g_Emojis guild).
             \<not> e_Animated local
             \<and> ToLower env (e_Name local) = emojiSequenceOf env match
             \<and> fst (defaultReplace env (Some guild) match w)
                 = slice match 0 (firstDoubleColon match) @ emojiReference local)"
proof -
  obtain found w1 where
    f: "findMatchInEmojis env (g_ID guild) True (emojiSequenceOf env match) (g_Emojis guild) w
          = (found, w1)"
    by (cases "findMatchInEmojis env (g_ID guild) True (emojiSequenceOf env match)
                 (g_Emojis guild) w") auto
  from findMatchInEmojis_eligible [OF assms(3,4,5,6)] f have ne: "found \<noteq> []"
    by simp
  from findMatchInEmojis_found [OF f ne] obtain local where
    l: "local \<in> set (g_Emojis guild)" "\<not> e_Animated local"
       "ToLower env (e_Name local) = emojiSequenceOf env match"
       "found = emojiReference local"
    by blast
  from f ne l(4) have
    "fst (defaultReplace env (Some guild) match w)
       = slice match 0 (firstDoubleColon match) @ emojiReference local"
    by (simp add: defaultReplace_def findMatchInGuild_def)
  with l assms(1,2) show ?thesis
    by (auto simp: replaceCustomEmojiSequences_def)
qed

theorem local_guild_emoji_first_witness:
  "u_PremiumType (State_User exampleWindow) = UserPremiumTypeNone
   \<and> \<lparr>e_ID = ''601'', e_Name = ''foo'', e_Roles = [], e_Animated = False\<rparr> \<in> set (g_Emojis guildB)
   \<and> ToLower exampleEnv ''foo'' = emojiSequenceOf exampleEnv '':foo:''
   \<and> (\<exists>local \<in> set (g_Emojis guildB).
         fst (defaultReplace exampleEnv (Some guildB) '':foo:'' exampleWindow)
           = slice '':foo:'' 0 (firstDoubleColon '':foo:'') @ emojiReference local)
   \<and> replaceCustomEmojiSequences exampleEnv (Some guildB) '':foo:'' exampleWindow
       = (''<:foo:601>'', exampleWindow)"
proof -
  have a: "u_PremiumType (State_User exampleWindow) \<noteq> UserPremiumTypeNitroClassic"
    and b: "u_PremiumType (State_User exampleWindow) \<noteq> UserPremiumTypeNitro"
    and n: "u_PremiumType (State_User exampleWindow) = UserPremiumTypeNone"
    by (simp_all add: exampleWindow_def localUser_def)
  let ?foo = "\<lparr>e_ID = ''601'', e_Name = ''foo'', e_Roles = [], e_Animated = False\<rparr>"
  have c: "?foo \<in> set (g_Emojis guildB)" and d: "\<not> e_Animated ?foo"
    and e: "ToLower exampleEnv (e_Name ?foo) = emojiSequenceOf exampleEnv '':foo:''"
    and f: "e_Roles ?foo = []
              \<or> State_Member exampleWindow (g_ID guildB) (u_ID (State_User exampleWindow)) \<noteq> None"
    by (simp_all add: emoji_eval)
  from local_guild_emoji_first [OF a b c d e f, of "'':foo:''"] n c e foo_plain
  show ?thesis by auto
qed

lemma exampleEnv_compose:
  "codeBlockRegex_pieces exampleEnv s = [(False, s)]"
  "OnMessageSend exampleEnv s = s"
  "discordemojimap_Replace exampleEnv s = s"
  by (simp_all add: exampleEnv_def)

lemma nitroWindow_talk:
  "c_GuildID (channelAt nitroWindow 12) = ''200''"
  "State_Guild nitroWindow ''200'' = Some guildB"
  "State_Members nitroWindow ''200'' = Some []"
  "map (channelAt nitroWindow) (g_Channels guildB) = [exampleChannels 12]"
  "c_Name (exampleChannels 12) = ''talk''"
  "c_ID (exampleChannels 12) = ''12''"
  "c_Type (exampleChannels 12) = ChannelTypeGuildText"
  by (simp_all add: State_Guild_def State_Members_def nitroWindow_def exampleWindow_def
        exampleChannels_def guildA_def guildB_def)

lemma prepareMessage_foo_nitro:
  "prepareMessage exampleEnv 12 '':foo:'' nitroWindow = (''<:foo:502>'', nitroWindow)"
  by (simp add: prepareMessage_def escapeCodeBlocks_def exampleEnv_compose nitroWindow_talk
        foo_nitro ReplaceAll_absent)

text \<open>
  For a user with nitro the guild of the channel has no priority: in channel \<open>talk\<close> of
  guild \<open>B\<close>, which has an emoji \<open>foo\<close> (601), the code \<open>:foo:\<close> becomes the emoji \<open>foo\<close>
  (502) of guild \<open>A\<close>, the first guild of the cache.
\<close>

theorem local_guild_emoji_first_counterexample:
  "u_PremiumType (State_User nitroWindow) = UserPremiumTypeNitro
   \<and> State_Guild nitroWindow (c_GuildID (channelAt nitroWindow 12)) = Some guildB
   \<and> \<lparr>e_ID = ''601'', e_Name = ''foo'', e_Roles = [], e_Animated = False\<rparr> \<in> set (g_Emojis guildB)
   \<and> \<lparr>e_ID = ''502'', e_Name = ''foo'', e_Roles = [], e_Animated = False\<rparr> \<in> set (g_Emojis guildA)
   \<and> replaceCustomEmojiSequences exampleEnv (Some guildB) '':foo:'' nitroWindow
       = (''<:foo:502>'', nitroWindow)
   \<and> prepareMessage exampleEnv 12 '':foo:'' nitroWindow = (''<:foo:502>'', nitroWindow)"
proof -
  have "u_PremiumType (State_User nitroWindow) = UserPremiumTypeNitro"
    by (simp add: nitroWindow_def)
  moreover have
    "\<lparr>e_ID = ''601'', e_Name = ''foo'', e_Roles = [], e_Animated = False\<rparr> \<in> set (g_Emojis guildB)"
    "\<lparr>e_ID = ''502'', e_Name = ''foo'', e_Roles = [], e_Animated = False\<rparr> \<in> set (g_Emojis guildA)"
    by (simp_all add: guildA_def guildB_def)
  ultimately show ?thesis
    by (simp add: nitroWindow_talk foo_nitro prepareMessage_foo_nitro)
qed

theorem animated_only_with_nitro_witness:
  "u_PremiumType (State_User exampleWindow) = UserPremiumTypeNone
   \<and> replaceCustomEmojiSequences exampleEnv (map_option withoutAnimated (Some guildA))
         ''hi :wave:'' (withoutAnimatedEmojis exampleWindow)
       = (''hi :wave:'', withoutAnimatedEmojis exampleWindow)
   \<and> u_PremiumType (State_User nitroWindow) = UserPremiumTypeNitro
   \<and> firstEmojiNamed exampleEnv (emojiSequenceOf exampleEnv '' :wave:'') (State_Guilds nitroWindow)
       = Some \<lparr>e_ID = ''501'', e_Name = ''wave'', e_Roles = [], e_Animated = True\<rparr>
   \<and> nitroReplace exampleEnv '' :wave:'' nitroWindow = ('' <a:wave:501>'', nitroWindow)
   \<and> replaceCustomEmojiSequences exampleEnv (Some guildA) ''hi :wave:'' nitroWindow
       = (''hi <a:wave:501>'', nitroWindow)"
proof -
  have n: "u_PremiumType (State_User exampleWindow) = UserPremiumTypeNone"
    and p: "u_PremiumType (State_User nitroWindow) = UserPremiumTypeNitro"
    by (simp_all add: exampleWindow_def nitroWindow_def localUser_def)
  have first:
    "firstEmojiNamed exampleEnv (emojiSequenceOf exampleEnv '' :wave:'') (State_Guilds nitroWindow)
       = Some \<lparr>e_ID = ''501'', e_Name = ''wave'', e_Roles = [], e_Animated = True\<rparr>"
    by (simp add: firstEmojiNamed_def emoji_eval)
  from animated_only_with_nitro [of exampleWindow exampleEnv "Some guildA" "''hi :wave:''"] n
    wave_plain
  have plain:
    "replaceCustomEmojiSequences exampleEnv (map_option withoutAnimated (Some guildA))
         ''hi :wave:'' (withoutAnimatedEmojis exampleWindow)
       = (''hi :wave:'', withoutAnimatedEmojis exampleWindow)"
    by simp
  from animated_only_with_nitro [of nitroWindow exampleEnv "Some guildA" "''hi :wave:''"] p first
  have "nitroReplace exampleEnv '' :wave:'' nitroWindow
          = (slice '' :wave:'' 0 (firstDoubleColon '' :wave:'')
               @ animatedEmojiReference
                   \<lparr>e_ID = ''501'', e_Name = ''wave'', e_Roles = [], e_Animated = True\<rparr>,
             nitroWindow)"
    by simp
  then have nitro: "nitroReplace exampleEnv '' :wave:'' nitroWindow = ('' <a:wave:501>'', nitroWindow)"
    by (simp add: slice_def firstDoubleColon_def IndexRune_def animatedEmojiReference_def)
  from n p first plain nitro wave_nitro show ?thesis by simp
qed

section \<open>Properties of the navigation\<close>

text \<open>
  Claim C3. When there is no previous channel, or the previous channel is the selected
  one, \<^verbatim>\<open>SwitchToPreviousChannel\<close> returns \<^verbatim>\<open>nil\<close>, calls nothing and leaves the state as it
  is; so does a second call right after the first.
\<close>

theorem SwitchToPreviousChannel_noop:
  assumes "previousChannel w = None \<or> previousChannel w = selectedChannel w"
  shows "SwitchToPreviousChannel env w = (Returned None, [], w)
       \<and> SwitchToPreviousChannel env (snd (snd (SwitchToPreviousChannel env w)))
           = (Returned None, [], w)"
proof -
  from assms have "SwitchToPreviousChannel env w = (Returned None, [], w)"
    by (auto simp: SwitchToPreviousChannel_def split: option.splits)
  then show ?thesis by simp
qed

theorem SwitchToPreviousChannel_noop_witness:
  "(previousChannel revisitWindow = None
      \<or> previousChannel revisitWindow = selectedChannel revisitWindow)
   \<and> SwitchToPreviousChannel exampleEnv revisitWindow = (Returned None, [], revisitWindow)
   \<and> SwitchToPreviousChannel exampleEnv
         (snd (snd (SwitchToPreviousChannel exampleEnv revisitWindow)))
       = (Returned None, [], revisitWindow)"
proof -
  have h: "previousChannel revisitWindow = None
            \<or> previousChannel revisitWindow = selectedChannel revisitWindow"
    by (simp add: revisitWindow_def)
  from h SwitchToPreviousChannel_noop [OF h, of exampleEnv] show ?thesis
    by blast
qed

text \<open>
  What \<^verbatim>\<open>SwitchToPreviousChannel\<close> does when the check of the previous channel fails, in
  every state and environment. With a previous channel that the cache holds no more
  (lines 2167 to 2172), and with a previous guild that the cache holds no more (lines
  2182 to 2187), the two fields are cleared and the function panics, since the message of
  the error is built from the field just set to \<^verbatim>\<open>nil\<close>. Without the permission to read
  (lines 2188 to 2190) the error is returned and nothing is cleared.
\<close>

lemma SwitchToPreviousChannel_stale_channel:
  assumes "previousChannel w = Some previous"
    and "previousChannel w \<noteq> selectedChannel w"
    and "State_Channel w (c_ID (channelAt w previous)) = None"
  shows "SwitchToPreviousChannel env w
           = (Panicked, [], w\<lparr>previousChannel := None, previousChannelNode := None\<rparr>)"
  using assms by (simp add: SwitchToPreviousChannel_def)

lemma SwitchToPreviousChannel_stale_guild:
  assumes "previousChannel w = Some previous"
    and "previousChannel w \<noteq> selectedChannel w"
    and "State_Channel w (c_ID (channelAt w previous)) = Some cached"
    and "c_Type (channelAt w previous) = ChannelTypeGuildText"
    and "previousGuild w = Some guild"
    and "State_Guild w (g_ID guild) = None"
  shows "SwitchToPreviousChannel env w
           = (Panicked, [], w\<lparr>previousGuild := None, previousGuildNode := None\<rparr>)"
  using assms by (simp add: SwitchToPreviousChannel_def)

lemma SwitchToPreviousChannel_no_permission:
  assumes "previousChannel w = Some previous"
    and "previousChannel w \<noteq> selectedChannel w"
    and "State_Channel w (c_ID (channelAt w previous)) = Some cached"
    and "c_Type (channelAt w previous) = ChannelTypeGuildText"
    and "previousGuild w = Some guild"
    and "State_Guild w (g_ID guild) = Some cachedGuild"
    and "\<not> HasReadMessagesPermission env (c_ID (channelAt w previous)) w"
  shows "SwitchToPreviousChannel env w
           = (Returned (Some (''No read permissions for channel: ''
                               @ c_Name (channelAt w previous))), [], w)"
  using assms by (simp add: SwitchToPreviousChannel_def)

lemma example_simps:
  "State_Channel backWindow ''11'' = Some 11"
  "State_Channel staleWindow ''11'' = None"
  "channelAt backWindow = exampleChannels"
  "channelAt staleWindow = exampleChannels"
  "previousChannel backWindow = Some 11"
  "previousChannel staleWindow = Some 11"
  "selectedChannel backWindow = Some 10"
  "selectedChannel staleWindow = Some 10"
  "previousGuild backWindow = Some guildA"
  "previousGuildNode backWindow = Some 20"
  "selectedGuildNode backWindow = None"
  "State_Guild backWindow ''100'' = Some guildA"
  by (simp_all add: State_Channel_def State_Guild_def backWindow_def staleWindow_def
        exampleWindow_def guildA_def)

lemma exampleChannels_11:
  "c_ID (exampleChannels 11) = ''11''" "c_Name (exampleChannels 11) = ''general''"
  "c_Type (exampleChannels 11) = ChannelTypeGuildText"
  "c_GuildID (exampleChannels 11) = ''100''"
  by (simp_all add: exampleChannels_def)

lemma staleGuildWindow_simps:
  "State_Channel staleGuildWindow ''11'' = Some 11"
  "channelAt staleGuildWindow = exampleChannels"
  "previousChannel staleGuildWindow = Some 11"
  "selectedChannel staleGuildWindow = Some 10"
  "previousGuild staleGuildWindow = Some guildA"
  "State_Guild staleGuildWindow ''100'' = None"
  by (simp_all add: State_Channel_def State_Guild_def staleGuildWindow_def backWindow_def
        exampleWindow_def guildA_def guildB_def)

text \<open>
  Claim C2 at inputs where the code does not do what the claim says. In both states the
  direct chat (channel 10) is shown and the previous channel is \<open>general\<close> of guild \<open>A\<close>. In
  \<open>staleWindow\<close> the cache holds the channel \<open>general\<close> no more: the call clears
  \<^verbatim>\<open>previousChannel\<close> and \<^verbatim>\<open>previousChannelNode\<close> and then panics at line 2171, where the
  name of the channel is read through the field that line 2169 has set to \<^verbatim>\<open>nil\<close>. In
  \<open>staleGuildWindow\<close> the cache holds the channel but guild \<open>A\<close> no more: the call clears
  \<^verbatim>\<open>previousGuild\<close> and \<^verbatim>\<open>previousGuildNode\<close> and then panics at line 2186 in the same way.
  The claim has the call return a descriptive error, without crashing.
\<close>

theorem SwitchToPreviousChannel_stale_panics:
  "previousChannel staleWindow = Some 11
   \<and> selectedChannel staleWindow = Some 10
   \<and> State_Channel staleWindow (c_ID (channelAt staleWindow 11)) = None
   \<and> SwitchToPreviousChannel exampleEnv staleWindow
       = (Panicked, [], staleWindow\<lparr>previousChannel := None, previousChannelNode := None\<rparr>)
   \<and> previousChannel staleGuildWindow = Some 11
   \<and> selectedChannel staleGuildWindow = Some 10
   \<and> State_Channel staleGuildWindow (c_ID (channelAt staleGuildWindow 11)) = Some 11
   \<and> c_Type (channelAt staleGuildWindow 11) = ChannelTypeGuildText
   \<and> previousGuild staleGuildWindow = Some guildA
   \<and> State_Guild staleGuildWindow (g_ID guildA) = None
   \<and> SwitchToPreviousChannel exampleEnv staleGuildWindow
       = (Panicked, [], staleGuildWindow\<lparr>previousGuild := None, previousGuildNode := None\<rparr>)"
  by (simp add: SwitchToPreviousChannel_def example_simps staleGuildWindow_simps
        exampleChannels_11 guildA_def)

text \<open>
  Claim C4 at an input where the code does not do what the claim says. A direct chat is
  shown, so no guild node is selected; the previous guild and the previous channel are
  those of guild \<open>A\<close> (id 100). When guild 100 is removed, the round ends at line 1693 and
  the previous guild, its node, the previous channel and its node still point at the
  removed guild.
\<close>

theorem guildRemove_private_chat_open:
  "selectedGuildNode backWindow = None
   \<and> previousGuildNode backWindow = Some 20
   \<and> nodeReference backWindow 20 = Some ''100''
   \<and> previousGuild backWindow = Some guildA \<and> g_ID guildA = ''100''
   \<and> processGuildRemove ''100'' backWindow = ([], backWindow)"
  by (simp add: processGuildRemove_def handleGuildRemove_def example_simps guildA_def
        backWindow_def exampleWindow_def)

text \<open>
  With a guild node selected, the same event is handled as the claim says: the previous
  fields are cleared when the previous node refers to the removed guild; the selected
  guild and its node are cleared when the selected node does, and with them the open chat
  when its channel is of that guild.
\<close>

lemma handleGuildRemove_selected:
  assumes "selectedGuildNode w = Some selectedNode"
    and "processGuildRemove guildID w = (calls, w')"
  shows "(\<forall>previousNode. previousGuildNode w = Some previousNode
            \<and> nodeReference w previousNode = Some guildID \<longrightarrow>
            previousGuild w' = None \<and> previousGuildNode w' = None
            \<and> previousChannel w' = None \<and> previousChannelNode w' = None)
       \<and> (nodeReference w selectedNode = Some guildID \<longrightarrow>
            selectedGuild w' = None \<and> selectedGuildNode w' = None
            \<and> (\<forall>selected. selectedChannel w = Some selected
                   \<and> c_GuildID (channelAt w selected) = guildID \<longrightarrow>
                   selectedChannel w' = None \<and> selectedChannelNode w' = None
                   \<and> chatView_ClearViewAndCache \<in> set calls))"
  using assms
  by (auto simp: processGuildRemove_def handleGuildRemove_def guildRemoveUpdate_def Let_def
           split: option.splits if_splits)

lemma loadMessages_frame:
  assumes "loadMessages env channel w = (messages, w1)"
  shows "selectedChannel w1 = selectedChannel w"
    and "selectedChannelNode w1 = selectedChannelNode w"
    and "selectedGuild w1 = selectedGuild w"
    and "selectedGuildNode w1 = selectedGuildNode w"
    and "previousChannel w1 = previousChannel w"
    and "previousChannelNode w1 = previousChannelNode w"
    and "previousGuild w1 = previousGuild w"
    and "previousGuildNode w1 = previousGuildNode w"
    and "channelTree_CurrentNode w1 = channelTree_CurrentNode w"
    and "c_Type (channelAt w1 c) = c_Type (channelAt w c)"
    and "c_Recipients (channelAt w1 c) = c_Recipients (channelAt w c)"
    and "c_GuildID (channelAt w1 c) = c_GuildID (channelAt w c)"
    and "c_ID (channelAt w1 c) = c_ID (channelAt w c)"
  using assms
  by (auto simp: loadMessages_def Let_def split: if_splits option.splits sum.splits)

lemma UpdateChatHeader_returns:
  "(c_Type channel = ChannelTypeDM \<longrightarrow> c_Recipients channel \<noteq> [])
     \<Longrightarrow> \<exists>header. UpdateChatHeader env channel = Some header"
  by (auto simp: UpdateChatHeader_def split: list.splits)

lemma rememberPreviousChannel_frame:
  "selectedChannel (rememberPreviousChannel channel w) = selectedChannel w"
  "selectedChannelNode (rememberPreviousChannel channel w) = selectedChannelNode w"
  "selectedGuild (rememberPreviousChannel channel w) = selectedGuild w"
  "selectedGuildNode (rememberPreviousChannel channel w) = selectedGuildNode w"
  "channelTree_CurrentNode (rememberPreviousChannel channel w) = channelTree_CurrentNode w"
  "channelAt (rememberPreviousChannel channel w) = channelAt w"
  by (auto simp: rememberPreviousChannel_def Let_def split: option.splits)

lemma markSelectedChannelNodeRead_returns:
  "(selectedChannelNode w \<noteq> None \<longrightarrow> selectedChannel w \<noteq> None)
     \<Longrightarrow> \<exists>marked. markSelectedChannelNodeRead channel w = Some marked"
  by (auto simp: markSelectedChannelNodeRead_def split: option.splits)

lemma markSelectedGuild_returns:
  "(selectedGuild w \<noteq> None \<longrightarrow> selectedGuildNode w \<noteq> None)
     \<Longrightarrow> \<exists>guildMarked.
           (case selectedGuild w of
              None \<Rightarrow> Some []
            | Some guild \<Rightarrow>
                if g_ID guild \<noteq> guildID
                then updateServerReadStatus env (g_ID guild) (selectedGuildNode w) False
                else Some []) = Some guildMarked"
  by (auto simp: updateServerReadStatus_def split: option.splits)

text \<open>
  Claim C5. In a state where \<^verbatim>\<open>LoadChannel\<close> does not panic (a direct message has a
  recipient, a selected channel node comes with a selected channel, a selected guild with
  its node) it returns \<^verbatim>\<open>nil\<close> and selects the channel. If no channel was selected, the
  previous channel is the new one and the previous node is the node that also becomes the
  selected one; if another channel was selected, that channel and its node become the
  previous ones; if the channel was the selected one already, the previous channel, guild
  and nodes stay as they were.
\<close>

theorem LoadChannel_previous:
  assumes recipients:
      "c_Type (channelAt w channel) = ChannelTypeDM \<longrightarrow> c_Recipients (channelAt w channel) \<noteq> []"
    and node: "selectedChannelNode w \<noteq> None \<longrightarrow> selectedChannel w \<noteq> None"
    and guildNode: "selectedGuild w \<noteq> None \<longrightarrow> selectedGuildNode w \<noteq> None"
    and load: "LoadChannel env channel w = (result, calls, w')"
  shows "result = Returned None
       \<and> selectedChannel w' = Some channel
       \<and> selectedChannelNode w' = channelTree_CurrentNode w
       \<and> (selectedChannel w = None \<longrightarrow>
            previousChannel w' = Some channel
            \<and> previousChannelNode w' = channelTree_CurrentNode w)
       \<and> (\<forall>selected. selectedChannel w = Some selected \<and> selected \<noteq> channel \<longrightarrow>
            previousChannel w' = Some selected
            \<and> previousChannelNode w' = selectedChannelNode w)
       \<and> (selectedChannel w = Some channel \<longrightarrow>
            previousChannel w' = previousChannel w
            \<and> previousChannelNode w' = previousChannelNode w
            \<and> previousGuild w' = previousGuild w
            \<and> previousGuildNode w' = previousGuildNode w)"
proof -
  obtain messages w1 where lm: "loadMessages env channel w = (messages, w1)"
    by (cases "loadMessages env channel w") auto
  note fr = loadMessages_frame [OF lm]
  from recipients fr(10,11) obtain header where
    h: "UpdateChatHeader env (channelAt w1 channel) = Some header"
    using UpdateChatHeader_returns [of "channelAt w1 channel" env] by auto
  define w2 where "w2 = rememberPreviousChannel channel w1"
  note rf = rememberPreviousChannel_frame [of channel w1, folded w2_def]
  from node fr(1,2) rf(1,2) have "\<exists>marked. markSelectedChannelNodeRead channel w2 = Some marked"
    by (intro markSelectedChannelNodeRead_returns) simp
  then obtain marked where m: "markSelectedChannelNodeRead channel w2 = Some marked" ..
  define w3 where
    "w3 = w2\<lparr>selectedChannel := Some channel, selectedChannelNode := channelTree_CurrentNode w2\<rparr>"
  from guildNode fr(3,4) rf(3,4) have
    "\<exists>guildMarked. (case selectedGuild w3 of
           None \<Rightarrow> Some []
         | Some guild \<Rightarrow>
             if g_ID guild \<noteq> c_GuildID (channelAt w3 channel)
             then updateServerReadStatus env (g_ID guild) (selectedGuildNode w3) False
             else Some []) = Some guildMarked"
    by (intro markSelectedGuild_returns) (simp add: w3_def)
  then obtain guildMarked where
    g: "(case selectedGuild w3 of
           None \<Rightarrow> Some []
         | Some guild \<Rightarrow>
             if g_ID guild \<noteq> c_GuildID (channelAt w3 channel)
             then updateServerReadStatus env (g_ID guild) (selectedGuildNode w3) False
             else Some []) = Some guildMarked" ..
  from load lm h m g have
    res: "result = Returned None" and
    w': "w' = (if c_GuildID (channelAt w3 channel) = []
               then w3\<lparr>selectedGuild := None, selectedGuildNode := None\<rparr>
               else w3)\<lparr>editingMessageID := None\<rparr>"
    by (auto simp: LoadChannel_def Let_def exitMessageEditModeAndKeepText_def
          w2_def [symmetric] w3_def [symmetric])
  have prev: "previousChannel w' = previousChannel w2"
    "previousChannelNode w' = previousChannelNode w2"
    "previousGuild w' = previousGuild w2"
    "previousGuildNode w' = previousGuildNode w2"
    "selectedChannel w' = Some channel"
    "selectedChannelNode w' = channelTree_CurrentNode w2"
    by (simp_all add: w' w3_def)
  show ?thesis
    using res prev fr rf
    by (auto simp: w2_def rememberPreviousChannel_def Let_def)
qed

lemma exampleWindow_fields:
  "selectedChannel exampleWindow = None"
  "selectedChannelNode exampleWindow = None"
  "selectedGuild exampleWindow = None"
  "channelTree_CurrentNode exampleWindow = Some 22"
  "channelAt exampleWindow = exampleChannels"
  "messageAt exampleWindow = exampleMessages"
  "userActive exampleWindow = False"
  "State_User exampleWindow = localUser"
  "leftArea_CurrentPage exampleWindow = ''Guilds''"
  "State_Channel exampleWindow ''10'' = Some 10"
  by (simp_all add: exampleWindow_def State_Channel_def)

theorem LoadChannel_previous_witness:
  "c_Type (channelAt exampleWindow 11) = ChannelTypeGuildText
   \<and> selectedChannelNode exampleWindow = None
   \<and> selectedGuild exampleWindow = None
   \<and> selectedChannel exampleWindow = None
   \<and> fst (LoadChannel exampleEnv 11 exampleWindow) = Returned None
   \<and> previousChannel (snd (snd (LoadChannel exampleEnv 11 exampleWindow))) = Some 11
   \<and> selectedChannel (snd (snd (LoadChannel exampleEnv 11 exampleWindow))) = Some 11
   \<and> previousChannelNode (snd (snd (LoadChannel exampleEnv 11 exampleWindow))) = Some 22
   \<and> selectedChannelNode (snd (snd (LoadChannel exampleEnv 11 exampleWindow))) = Some 22"
proof -
  have a: "c_Type (channelAt exampleWindow 11) = ChannelTypeGuildText"
    by (simp add: exampleWindow_fields exampleChannels_def)
  then have r: "c_Type (channelAt exampleWindow 11) = ChannelTypeDM
                 \<longrightarrow> c_Recipients (channelAt exampleWindow 11) \<noteq> []"
    by simp
  have n: "selectedChannelNode exampleWindow \<noteq> None \<longrightarrow> selectedChannel exampleWindow \<noteq> None"
    and g: "selectedGuild exampleWindow \<noteq> None \<longrightarrow> selectedGuildNode exampleWindow \<noteq> None"
    by (simp_all add: exampleWindow_fields)
  have l: "LoadChannel exampleEnv 11 exampleWindow
            = (fst (LoadChannel exampleEnv 11 exampleWindow),
               fst (snd (LoadChannel exampleEnv 11 exampleWindow)),
               snd (snd (LoadChannel exampleEnv 11 exampleWindow)))"
    by simp
  from LoadChannel_previous [OF r n g l] a show ?thesis
    by (simp add: exampleWindow_fields)
qed


section \<open>Properties of the message events\<close>

lemma notify_inactive:
  "beeep_Notify title body \<in> set (notify env w channel message mentions)
     \<Longrightarrow> \<not> userActive w \<and> DesktopNotifications env
         \<and> (mentions \<or> c_Type channel = ChannelTypeDM \<or> c_Type channel = ChannelTypeGroupDM)"
  by (auto simp: notify_def Let_def split: if_splits option.splits)

lemma markGuildOfChannel_no_Notify:
  "beeep_Notify title body \<notin> set (markGuildOfChannel env guildID nodes w)"
  by (induction nodes) (auto simp: updateServerReadStatus_def)

lemma markUnread_no_Notify:
  "beeep_Notify title body \<notin> set (markUnread env channelRef channel mentions)"
  by (auto simp: markUnread_def)

lemma userActive_after_cache [simp]:
  "userActive (setLastMessageID channelRef messageID w) = userActive w"
  "userActive (State_MessageAdd env messageRef w) = userActive w"
  "channelAt (setLastMessageID channelRef messageID w) channelRef
     = (channelAt w channelRef)\<lparr>c_LastMessageID := messageID\<rparr>"
  by (auto simp: setLastMessageID_def State_MessageAdd_def split: prod.splits)


lemma exampleEnv_events:
  "cache_MessageAdd exampleEnv m stores = stores"
  "DesktopNotifications exampleEnv"
  "ContentWithMentionsReplaced exampleEnv message = msg_Content message"
  "beeep_Notify_error exampleEnv title body = None"
  "IsChannelMuted exampleEnv channel = False"
  by (simp_all add: exampleEnv_def)


text \<open>While the flag is set, no notification is sent.\<close>

lemma no_notification_while_active:
  assumes "userActive w"
  shows "beeep_Notify title body \<notin> set (fst (handleMessageCreate env messageRef w))"
proof
  assume fired: "beeep_Notify title body \<in> set (fst (handleMessageCreate env messageRef w))"
  let ?w1 = "State_MessageAdd env messageRef w"
  let ?message = "messageAt ?w1 messageRef"
  show False
  proof (cases "State_Channel ?w1 (msg_ChannelID ?message)")
    case None
    with fired show False by (simp add: handleMessageCreate_def Let_def)
  next
    case (Some channelRef)
    let ?w2 = "setLastMessageID channelRef (msg_ID ?message) ?w1"
    from fired Some have
      "beeep_Notify title body
         \<in> set (notify env ?w2 (channelAt ?w2 channelRef) ?message
                   (MentionsCurrentUserExplicitly env ?w2 ?message))"
      by (auto simp: handleMessageCreate_def Let_def markGuildOfChannel_no_Notify
            markUnread_no_Notify split: if_splits)
    from notify_inactive [OF this] assms show False by simp
  qed
qed

text \<open>
  The flag and the input of the user, for the head of \<^verbatim>\<open>handleGlobalShortcuts\<close>. A key
  event that is not the shortcut to leave, handled while the main layout is shown, sets
  the flag and lets the timer fire ten seconds later; in the state that lines 1905 and
  1906 leave, no notification is sent for a message that arrives within these ten
  seconds. The shortcut to leave and a key handled while something else is shown leave
  the state as it is, and so does a click into the message input.
\<close>

lemma handleGlobalShortcuts_marks:
  assumes "\<not> ExitApplication_Equals env event" and "currentContainer w = rootContainer"
  shows "snd (snd (handleGlobalShortcuts env pressed event w))
           = w\<lparr>userActive := True, userActiveTimer := Some (pressed + userInactiveTime)\<rparr>"
  using assms
  by (simp add: handleGlobalShortcuts_def userActiveTimer_Reset_def Let_def)

lemma handleGlobalShortcuts_unmarked:
  assumes "ExitApplication_Equals env event \<or> currentContainer w \<noteq> rootContainer"
  shows "snd (snd (handleGlobalShortcuts env pressed event w)) = w"
  using assms by (auto simp: handleGlobalShortcuts_def)

lemma messageInput_MouseHandler_state:
  "snd (snd (messageInput_MouseHandler buttons w)) = w"
  by (simp add: messageInput_MouseHandler_def)

lemma no_notification_after_key:
  assumes "\<not> ExitApplication_Equals env event" and "currentContainer w = rootContainer"
    and "now < pressed + userInactiveTime"
  shows "beeep_Notify title body
           \<notin> set (fst (handleMessageCreate env messageRef
                          (userActiveTimer_goroutine now
                             (snd (snd (handleGlobalShortcuts env pressed event w))))))"
proof (rule no_notification_while_active)
  from assms show "userActive (userActiveTimer_goroutine now
                                 (snd (snd (handleGlobalShortcuts env pressed event w))))"
    by (simp add: handleGlobalShortcuts_marks userActiveTimer_goroutine_def)
qed



lemma updateInView_found:
  "find (\<lambda>r. msg_ID (messageAt w r) = msg_ID (messageAt w edited)) rows = Some row
     \<Longrightarrow> updateInView edited rows w
         = ([QueueUpdateDrawSynchronized [chatView_UpdateMessage row]],
            w\<lparr>messageAt := (messageAt w)
                 (row := merged (messageAt w row) (messageAt w edited))\<rparr>)"
  by (induction rows) (auto simp: merged_def split: if_splits)

lemma updateInView_missing:
  "find (\<lambda>r. msg_ID (messageAt w r) = msg_ID (messageAt w edited)) rows = None
     \<Longrightarrow> updateInView edited rows w = ([], w)"
  by (induction rows) (auto split: if_splits)

text \<open>
  Claim C7, as amended. An update without content is not passed to the worker. For an
  update with content the worker first lets the cache add the message
  (\<^verbatim>\<open>State.MessageAdd\<close>); then, if the channel of the message is the one shown and a
  message of the view has its id, the first such message takes the content, the mentions,
  the mentioned roles and the mention of everyone, one update of the UI is requested, for
  that message, and every other message is as the cache left it; if the channel is not
  the one shown, or no message of the view has the id, nothing is requested and every
  message is as the cache left it.
\<close>

theorem message_update:
  assumes "w1 = State_MessageAdd env edited w"
    and "isOpen \<longleftrightarrow> (\<exists>selected. selectedChannel w1 = Some selected
            \<and> c_ID (channelAt w1 selected) = msg_ChannelID (messageAt w1 edited))"
    and "found = find (\<lambda>r. msg_ID (messageAt w1 r) = msg_ID (messageAt w1 edited))
                   (chatView_data w1)"
    and "handleMessageEdit env edited w = (calls, w')"
  shows "(msg_Content (messageAt w edited) = [] \<longrightarrow> onMessageUpdate w edited = [])
       \<and> (msg_Content (messageAt w edited) \<noteq> [] \<longrightarrow> onMessageUpdate w edited = [edit_send edited])
       \<and> (\<forall>row. isOpen \<and> found = Some row \<longrightarrow>
            calls = [QueueUpdateDrawSynchronized [chatView_UpdateMessage row]]
            \<and> messageAt w' row = merged (messageAt w1 row) (messageAt w1 edited)
            \<and> (\<forall>other. other \<noteq> row \<longrightarrow> messageAt w' other = messageAt w1 other)
            \<and> chatView_data w' = chatView_data w1)
       \<and> (\<not> isOpen \<or> found = None \<longrightarrow> calls = [] \<and> w' = w1)"
proof -
  have handler:
    "(msg_Content (messageAt w edited) = [] \<longrightarrow> onMessageUpdate w edited = [])
     \<and> (msg_Content (messageAt w edited) \<noteq> [] \<longrightarrow> onMessageUpdate w edited = [edit_send edited])"
    by (simp add: onMessageUpdate_def)
  have closed: "\<not> isOpen \<Longrightarrow> calls = [] \<and> w' = w1"
    using assms by (auto simp: handleMessageEdit_def Let_def split: option.splits if_splits)
  have opened: "isOpen \<Longrightarrow> updateInView edited (chatView_data w1) w1 = (calls, w')"
    using assms by (auto simp: handleMessageEdit_def Let_def split: option.splits if_splits)
  have missing: "isOpen \<Longrightarrow> found = None \<Longrightarrow> calls = [] \<and> w' = w1"
    using opened updateInView_missing [of w1 edited "chatView_data w1"] assms(3) by simp
  have hit: "isOpen \<Longrightarrow> found = Some row \<Longrightarrow>
      calls = [QueueUpdateDrawSynchronized [chatView_UpdateMessage row]]
      \<and> w' = w1\<lparr>messageAt := (messageAt w1)
                   (row := merged (messageAt w1 row) (messageAt w1 edited))\<rparr>" for row
    using opened updateInView_found [of w1 edited "chatView_data w1" row] assms(3) by simp
  show ?thesis
    using handler closed missing hit by auto
qed

theorem message_update_witness:
  "msg_Content (messageAt viewWindow 32) = ''new''
   \<and> onMessageUpdate viewWindow 32 = [edit_send 32]
   \<and> fst (handleMessageEdit exampleEnv 32 viewWindow)
       = [QueueUpdateDrawSynchronized [chatView_UpdateMessage 31]]
   \<and> messageAt (snd (handleMessageEdit exampleEnv 32 viewWindow)) 31
       = merged (exampleMessages 31) (exampleMessages 32)
   \<and> messageAt (snd (handleMessageEdit exampleEnv 32 viewWindow)) 33 = exampleMessages 33"
proof -
  have add: "State_MessageAdd exampleEnv 32 viewWindow = viewWindow"
    by (simp add: State_MessageAdd_def exampleEnv_events)
  have fields: "messageAt viewWindow = exampleMessages" "channelAt viewWindow = exampleChannels"
    "selectedChannel viewWindow = Some 11" "chatView_data viewWindow = [33, 31]"
    by (simp_all add: viewWindow_def exampleWindow_def)
  have c: "msg_Content (messageAt viewWindow 32) = ''new''"
    by (simp add: fields exampleMessages_def)
  have o: "True \<longleftrightarrow> (\<exists>selected. selectedChannel viewWindow = Some selected
            \<and> c_ID (channelAt viewWindow selected) = msg_ChannelID (messageAt viewWindow 32))"
    by (simp add: fields exampleMessages_def exampleChannels_def)
  have f: "Some 31 = find (\<lambda>r. msg_ID (messageAt viewWindow r) = msg_ID (messageAt viewWindow 32))
                   (chatView_data viewWindow)"
    by (simp add: fields exampleMessages_def)
  have h: "handleMessageEdit exampleEnv 32 viewWindow
        = (fst (handleMessageEdit exampleEnv 32 viewWindow),
           snd (handleMessageEdit exampleEnv 32 viewWindow))"
    by simp
  from message_update [of viewWindow exampleEnv 32 viewWindow True "Some 31", OF add [symmetric] o f h] c
  show ?thesis
    by (simp add: fields)
qed

text \<open>
  The claim as stated fails where the channel of the edited message is not the one shown:
  the four fields are written inside the check of lines 1633 and 1634 only. Here the
  direct chat is shown, the cache of the session holds message 31 of the channel
  \<open>general\<close>, and the update 32 of that message arrives, with a new content: nothing is
  requested, nothing changes, and message 31 keeps its old content.
\<close>

theorem message_update_counterexample:
  "onMessageUpdate closedWindow 32 = [edit_send 32]
   \<and> selectedChannel closedWindow = Some 10
   \<and> c_ID (channelAt closedWindow 10) = ''10''
   \<and> msg_ChannelID (messageAt closedWindow 32) = ''11''
   \<and> State_Channel closedWindow ''11'' = Some 11
   \<and> c_Messages (channelAt closedWindow 11) = [31]
   \<and> msg_ID (messageAt closedWindow 31) = msg_ID (messageAt closedWindow 32)
   \<and> msg_Content (messageAt closedWindow 31) = ''old''
   \<and> msg_Content (messageAt closedWindow 32) = ''new''
   \<and> handleMessageEdit exampleEnv 32 closedWindow = ([], closedWindow)
   \<and> messageAt (snd (handleMessageEdit exampleEnv 32 closedWindow)) 31
       \<noteq> merged (messageAt closedWindow 31) (messageAt closedWindow 32)"
proof -
  have add: "State_MessageAdd exampleEnv 32 closedWindow = closedWindow"
    by (simp add: State_MessageAdd_def exampleEnv_events)
  have fields: "messageAt closedWindow = exampleMessages"
    "selectedChannel closedWindow = Some 10"
    "channelAt closedWindow 10 = exampleChannels 10"
    "c_Messages (channelAt closedWindow 11) = [31]"
    "State_Channel closedWindow ''11'' = Some 11"
    by (simp_all add: closedWindow_def exampleWindow_def State_Channel_def)
  have edit: "handleMessageEdit exampleEnv 32 closedWindow = ([], closedWindow)"
    by (simp add: handleMessageEdit_def add fields exampleMessages_def exampleChannels_def)
  show ?thesis
    by (simp add: edit fields onMessageUpdate_def exampleMessages_def exampleChannels_def
          merged_def)
qed

end
